theory Spec2Isabelle
  imports Complex_Main "HOL-Library.Word" "HOL-Library.Log_Nat"
begin

unbundle bit_operations_syntax

section \<open>Python values, strings and exceptions\<close>

text \<open>
  The agent of \<^verbatim>\<open>src/agent/langchain_agent.py\<close> is embedded function by function.
  A Python \<^verbatim>\<open>str\<close> is a HOL \<open>string\<close>: a list of characters, each a code point
  below 256; the text that \<^verbatim>\<open>hash_string\<close> hashes is a list of code points of any size.
  A Python \<^verbatim>\<open>int\<close> is unbounded and is a HOL \<open>int\<close>. A \<^verbatim>\<open>bytes\<close> value is
  a list of 8-bit words. Writing to the console (\<^verbatim>\<open>print\<close>, \<^verbatim>\<open>traceback.print_exc\<close>) is
  not part of any result and is left out.
\<close>

type_synonym byte = "8 word"

datatype exn_class =
  ValueError | OverflowError | UnicodeEncodeError | AttributeError | KeyError | ValidationError
  | RuntimeError

text \<open>
  An exception is its class and the text \<^verbatim>\<open>str(e)\<close> gives. Every class above derives
  from Python's \<^verbatim>\<open>Exception\<close>. pydantic's \<^verbatim>\<open>ValidationError\<close> is kept apart from
  \<^verbatim>\<open>ValueError\<close>: it is only raised outside the tool bodies. \<^verbatim>\<open>UnicodeEncodeError\<close> derives
  from \<^verbatim>\<open>ValueError\<close>; it is raised by \<^verbatim>\<open>hash_string\<close> only, where no handler stands.
\<close>

datatype exn = Exn (exn_class: exn_class) (exn_msg: string)

datatype pyval =
  PyNone
| PyBool bool
| PyInt int
| PyFloat rat
| PyStr string
| PyList "pyval list"
| PyDict "(string \<times> pyval) list"

subsection \<open>Decimal text of integers\<close>

definition digit_char :: "nat \<Rightarrow> char" where
  "digit_char d = ''0123456789'' ! d"

fun digits10 :: "nat \<Rightarrow> string" where
  "digits10 n = (if n < 10 then [digit_char n] else digits10 (n div 10) @ [digit_char (n mod 10)])"

declare digits10.simps [simp del]

text \<open>\<^verbatim>\<open>str(n)\<close> for an integer.\<close>

definition str_int :: "int \<Rightarrow> string" where
  "str_int n = (if n < 0 then CHR ''-'' # digits10 (nat (- n)) else digits10 (nat n))"

text \<open>The format specification \<^verbatim>\<open>02d\<close>: zeros fill up to width 2, the sign counted in.\<close>

definition lpad0 :: "nat \<Rightarrow> string \<Rightarrow> string" where
  "lpad0 w s = replicate (w - length s) CHR ''0'' @ s"

definition fmt_02d :: "int \<Rightarrow> string" where
  "fmt_02d n = (if n < 0 then CHR ''-'' # lpad0 1 (digits10 (nat (- n))) else lpad0 2 (digits10 (nat n)))"

section \<open>The tool \<^verbatim>\<open>hash_string\<close>\<close>

text \<open>
  The text hashed is taken in full: a Python \<^verbatim>\<open>str\<close> as the list of its code points,
  each below \<open>0x110000\<close>. A \<^verbatim>\<open>str\<close> may hold surrogate code points (\<open>0xD800\<close> to
  \<open>0xDFFF\<close>) on their own, for instance when it was read from the JSON text
  \<^verbatim>\<open>"\ud800"\<close>.
\<close>

type_synonym code_point = nat


definition is_surrogate :: "code_point \<Rightarrow> bool" where
  "is_surrogate c = (0xD800 \<le> c \<and> c \<le> 0xDFFF)"

definition hex_char :: "nat \<Rightarrow> char" where
  "hex_char d = ''0123456789abcdef'' ! d"

text \<open>
  \<^verbatim>\<open>text.encode('utf-8')\<close>. A code point that is not a surrogate becomes one to four
  bytes: a lead byte, whose high bits tell the length, and continuation bytes of six
  bits each.
\<close>

definition utf8_char :: "code_point \<Rightarrow> byte list" where
  "utf8_char c =
     (if c < 0x80 then [word_of_nat c]
      else if c < 0x800 then [word_of_nat (0xC0 + c div 64), word_of_nat (0x80 + c mod 64)]
      else if c < 0x10000 then
        [word_of_nat (0xE0 + c div 4096), word_of_nat (0x80 + c div 64 mod 64),
         word_of_nat (0x80 + c mod 64)]
      else
        [word_of_nat (0xF0 + c div 262144), word_of_nat (0x80 + c div 4096 mod 64),
         word_of_nat (0x80 + c div 64 mod 64), word_of_nat (0x80 + c mod 64)])"

text \<open>
  The encoder stops at the first surrogate and raises \<^verbatim>\<open>UnicodeEncodeError\<close> for the run
  of surrogates that starts there. \<^verbatim>\<open>str(e)\<close> shows the code point when the run is a
  single one, and the first and last position of the run otherwise.
\<close>

definition surrogates_not_allowed :: "nat \<Rightarrow> code_point list \<Rightarrow> exn" where
  "surrogates_not_allowed pos run =
     Exn UnicodeEncodeError
       (if length run = 1 then
          [CHR 0x27] @ ''utf-8'' @ [CHR 0x27] @ '' codec can'' @ [CHR 0x27] @ ''t encode character ''
            @ [CHR 0x27, CHR 0x5C, CHR ''u'']
            @ [hex_char (hd run div 4096), hex_char (hd run div 256 mod 16),
               hex_char (hd run div 16 mod 16), hex_char (hd run mod 16)]
            @ [CHR 0x27] @ '' in position '' @ str_int (int pos) @ '': surrogates not allowed''
        else
          [CHR 0x27] @ ''utf-8'' @ [CHR 0x27] @ '' codec can'' @ [CHR 0x27] @ ''t encode characters''
            @ '' in position '' @ str_int (int pos) @ ''-'' @ str_int (int (pos + length run - 1))
            @ '': surrogates not allowed'')"

fun utf8_encode_from :: "nat \<Rightarrow> code_point list \<Rightarrow> exn + byte list" where
  "utf8_encode_from pos [] = Inr []"
| "utf8_encode_from pos (c # s) =
     (if is_surrogate c then Inl (surrogates_not_allowed pos (c # takeWhile is_surrogate s))
      else case utf8_encode_from (pos + 1) s of
             Inl e \<Rightarrow> Inl e
           | Inr bs \<Rightarrow> Inr (utf8_char c @ bs))"

definition utf8_encode :: "code_point list \<Rightarrow> exn + byte list" where
  "utf8_encode s = utf8_encode_from 0 s"

text \<open>\<^verbatim>\<open>hexdigest()\<close>: two lowercase hexadecimal digits per byte of the digest.\<close>

definition hex_byte :: "byte \<Rightarrow> string" where
  "hex_byte b = [hex_char (unat b div 16), hex_char (unat b mod 16)]"

definition hexdigest :: "byte list \<Rightarrow> string" where
  "hexdigest bs = concat (map hex_byte bs)"

text \<open>
  The four digest functions of \<^verbatim>\<open>hashlib\<close> are not code of the repository; they are
  taken as given, from the bytes hashed to the bytes of the digest.
\<close>

record hashlib =
  md5 :: "byte list \<Rightarrow> byte list"
  sha1 :: "byte list \<Rightarrow> byte list"
  sha256 :: "byte list \<Rightarrow> byte list"
  sha512 :: "byte list \<Rightarrow> byte list"

definition unsupported_algorithm :: "string \<Rightarrow> string" where
  "unsupported_algorithm algorithm =
     ''Unsupported algorithm: '' @ algorithm @ ''. Use md5, sha1, sha256, or sha512.''"

text \<open>
  The text is encoded first, whatever the algorithm is, and the encoder's exception
  is not handled.
\<close>

definition hash_string :: "hashlib \<Rightarrow> code_point list \<Rightarrow> string \<Rightarrow> exn + string" where
  "hash_string h text algorithm =
     (case utf8_encode text of
        Inl e \<Rightarrow> Inl e
      | Inr text_bytes \<Rightarrow>
          Inr (if algorithm = ''md5'' then hexdigest (md5 h text_bytes)
               else if algorithm = ''sha1'' then hexdigest (sha1 h text_bytes)
               else if algorithm = ''sha256'' then hexdigest (sha256 h text_bytes)
               else if algorithm = ''sha512'' then hexdigest (sha512 h text_bytes)
               else unsupported_algorithm algorithm))"



subsection \<open>UTF-8 as the standard defines it\<close>




section \<open>Dates: \<^verbatim>\<open>datetime.date\<close> and \<^verbatim>\<open>strptime\<close>\<close>

text \<open>
  \<^verbatim>\<open>datetime\<close> is CPython's, not the repository's; what the two date tools use of it is
  written out here as CPython computes it: the proleptic Gregorian ordinal of a date
  (day 1 is 0001-01-01), the weekday from the ordinal, the argument checks of the
  \<^verbatim>\<open>date\<close> constructor, and the parser for the format \<^verbatim>\<open>%Y-%m-%d\<close>.
\<close>

datatype date = Date (date_year: int) (date_month: int) (date_day: int)

definition is_leap :: "int \<Rightarrow> bool" where
  "is_leap y = (y mod 4 = 0 \<and> (y mod 100 \<noteq> 0 \<or> y mod 400 = 0))"

definition days_in_month :: "int \<Rightarrow> int \<Rightarrow> int" where
  "days_in_month y m =
     (if m = 2 \<and> is_leap y then 29
      else [31, 28, 31, 30, 31, 30, 31, 31, 30, 31, 30, 31] ! nat (m - 1))"

definition days_before_year :: "int \<Rightarrow> int" where
  "days_before_year y = (y - 1) * 365 + (y - 1) div 4 - (y - 1) div 100 + (y - 1) div 400"

definition days_before_month :: "int \<Rightarrow> int \<Rightarrow> int" where
  "days_before_month y m =
     [0, 31, 59, 90, 120, 151, 181, 212, 243, 273, 304, 334] ! nat (m - 1)
       + (if 2 < m \<and> is_leap y then 1 else 0)"

definition toordinal :: "date \<Rightarrow> int" where
  "toordinal d =
     days_before_year (date_year d) + days_before_month (date_year d) (date_month d) + date_day d"

text \<open>\<^verbatim>\<open>date.weekday()\<close>: Monday is 0.\<close>

definition weekday :: "date \<Rightarrow> int" where
  "weekday d = (toordinal d + 6) mod 7"

definition day_names :: "string list" where
  "day_names = [''Monday'', ''Tuesday'', ''Wednesday'', ''Thursday'', ''Friday'', ''Saturday'', ''Sunday'']"

text \<open>\<^verbatim>\<open>strftime("%A")\<close> in the C locale.\<close>

definition strftime_A :: "date \<Rightarrow> string" where
  "strftime_A d = day_names ! nat (weekday d)"

text \<open>
  The constructor reads each argument as a C \<^verbatim>\<open>int\<close> (through a 64-bit C \<^verbatim>\<open>long\<close>): a
  value outside it raises \<^verbatim>\<open>OverflowError\<close>, which is not a \<^verbatim>\<open>ValueError\<close>.
\<close>

definition c_int_arg :: "int \<Rightarrow> exn + int" where
  "c_int_arg n =
     (if n < - (2 ^ 63) \<or> 2 ^ 63 \<le> n then Inl (Exn OverflowError ''Python int too large to convert to C long'')
      else if 2 ^ 31 \<le> n then Inl (Exn OverflowError ''signed integer is greater than maximum'')
      else if n < - (2 ^ 31) then Inl (Exn OverflowError ''signed integer is less than minimum'')
      else Inr n)"

text \<open>The range checks of a date, in CPython's order: year, month, day.\<close>

definition check_date_fields :: "int \<Rightarrow> int \<Rightarrow> int \<Rightarrow> exn + date" where
  "check_date_fields y m d =
     (if y < 1 \<or> 9999 < y then Inl (Exn ValueError (''year '' @ str_int y @ '' is out of range''))
      else if m < 1 \<or> 12 < m then Inl (Exn ValueError ''month must be in 1..12'')
      else if d < 1 \<or> days_in_month y m < d then Inl (Exn ValueError ''day is out of range for month'')
      else Inr (Date y m d))"

definition datetime_date :: "int \<Rightarrow> int \<Rightarrow> int \<Rightarrow> exn + date" where
  "datetime_date year month day =
     (case c_int_arg year of Inl e \<Rightarrow> Inl e | Inr y \<Rightarrow>
      case c_int_arg month of Inl e \<Rightarrow> Inl e | Inr m \<Rightarrow>
      case c_int_arg day of Inl e \<Rightarrow> Inl e | Inr d \<Rightarrow>
      check_date_fields y m d)"

subsection \<open>The tool \<^verbatim>\<open>get_day_of_week\<close>\<close>

text \<open>
  The \<^verbatim>\<open>try\<close> block builds the date and the text; the handler catches \<^verbatim>\<open>ValueError\<close> only,
  so an exception of another class leaves the function.
\<close>

definition get_day_of_week :: "int \<Rightarrow> int \<Rightarrow> int \<Rightarrow> exn + string" where
  "get_day_of_week year month day =
     (case datetime_date year month day of
        Inr date_obj \<Rightarrow>
          Inr (str_int year @ ''-'' @ fmt_02d month @ ''-'' @ fmt_02d day
                 @ '' was/is a '' @ strftime_A date_obj)
      | Inl e \<Rightarrow>
          (if exn_class e = ValueError then Inr (''Invalid date: '' @ exn_msg e) else Inl e))"

text \<open>
  The calendar itself, for comparison: the day after a date, counted month by month
  and year by year, and the date reached after a number of days.
\<close>

definition calendar_date :: "date \<Rightarrow> bool" where
  "calendar_date d =
     (1 \<le> date_month d \<and> date_month d \<le> 12
      \<and> 1 \<le> date_day d \<and> date_day d \<le> days_in_month (date_year d) (date_month d))"

definition valid_date :: "date \<Rightarrow> bool" where
  "valid_date d =
     (1 \<le> date_year d \<and> date_year d \<le> 9999 \<and> 1 \<le> date_month d \<and> date_month d \<le> 12
      \<and> 1 \<le> date_day d \<and> date_day d \<le> days_in_month (date_year d) (date_month d))"

definition next_day :: "date \<Rightarrow> date" where
  "next_day d =
     (if date_day d < days_in_month (date_year d) (date_month d)
        then Date (date_year d) (date_month d) (date_day d + 1)
      else if date_month d < 12 then Date (date_year d) (date_month d + 1) 1
      else Date (date_year d + 1) 1 1)"


subsection \<open>Parsing \<^verbatim>\<open>%Y-%m-%d\<close>\<close>

text \<open>
  \<^verbatim>\<open>repr\<close> of a string, as the parser's error text shows the data: double quotes when
  the string has a single quote and no double quote, backslash escapes for the quote,
  the backslash and the characters that are not printable.
\<close>

definition repr_char :: "char \<Rightarrow> char \<Rightarrow> string" where
  "repr_char q c =
     (let n = (of_char c :: nat) in
      if c = q \<or> c = CHR 0x5C then [CHR 0x5C, c]
      else if n = 9 then [CHR 0x5C, CHR ''t'']
      else if n = 10 then [CHR 0x5C, CHR ''n'']
      else if n = 13 then [CHR 0x5C, CHR ''r'']
      else if n < 32 \<or> (127 \<le> n \<and> n \<le> 160) \<or> n = 173
        then [CHR 0x5C, CHR ''x'', hex_char (n div 16), hex_char (n mod 16)]
      else [c])"

definition py_repr :: "string \<Rightarrow> string" where
  "py_repr s =
     (let q = (if CHR 0x27 \<in> set s \<and> CHR 0x22 \<notin> set s then CHR 0x22 else CHR 0x27)
      in q # concat (map (repr_char q) s) @ [q])"

definition is_digit :: "char \<Rightarrow> bool" where
  "is_digit c = (c \<in> set ''0123456789'')"

definition is_digit19 :: "char \<Rightarrow> bool" where
  "is_digit19 c = (c \<in> set ''123456789'')"

definition digit_val :: "char \<Rightarrow> int" where
  "digit_val c = int (of_char c) - 48"

text \<open>\<^verbatim>\<open>int(s)\<close> on what a group of the pattern matched: digits, after blanks.\<close>

definition int_of_str :: "string \<Rightarrow> int" where
  "int_of_str s = foldl (\<lambda>a c. 10 * a + digit_val c) 0 (dropWhile (\<lambda>c. c = CHR '' '') s)"

text \<open>
  The pattern the format compiles to is
  \<^verbatim>\<open>(?P<Y>\d\d\d\d)-(?P<m>1[0-2]|0[1-9]|[1-9])-(?P<d>3[0-1]|[1-2]\d|0[1-9]|[1-9]| [1-9])\<close>,
  matched at the start of the data. A group's alternatives are tried in the order
  written; each function lists the ways its group matches a prefix, as the text
  matched and the text left, in that order.
\<close>

definition month_alts :: "string \<Rightarrow> (string \<times> string) list" where
  "month_alts s =
     (case s of
        [] \<Rightarrow> []
      | [a] \<Rightarrow> (if is_digit19 a then [([a], [])] else [])
      | a # b # r \<Rightarrow>
          (if a = CHR ''1'' \<and> b \<in> set ''012'' then [([a, b], r)] else [])
          @ (if a = CHR ''0'' \<and> is_digit19 b then [([a, b], r)] else [])
          @ (if is_digit19 a then [([a], b # r)] else []))"

definition day_alts :: "string \<Rightarrow> (string \<times> string) list" where
  "day_alts s =
     (case s of
        [] \<Rightarrow> []
      | [a] \<Rightarrow> (if is_digit19 a then [([a], [])] else [])
      | a # b # r \<Rightarrow>
          (if a = CHR ''3'' \<and> b \<in> set ''01'' then [([a, b], r)] else [])
          @ (if a \<in> set ''12'' \<and> is_digit b then [([a, b], r)] else [])
          @ (if a = CHR ''0'' \<and> is_digit19 b then [([a, b], r)] else [])
          @ (if is_digit19 a then [([a], b # r)] else [])
          @ (if a = CHR '' '' \<and> is_digit19 b then [([a, b], r)] else []))"

text \<open>
  The first way the whole pattern matches: the year's four digits and a hyphen, then
  the first alternative of the month that a hyphen and a day follow, then the first
  alternative of the day. The result is the three texts matched and the data left.
\<close>

definition match_ymd :: "string \<Rightarrow> (string \<times> string \<times> string \<times> string) option" where
  "match_ymd s =
     (case s of
        y1 # y2 # y3 # y4 # h # r \<Rightarrow>
          if is_digit y1 \<and> is_digit y2 \<and> is_digit y3 \<and> is_digit y4 \<and> h = CHR ''-'' then
            (case [(m, d, rest).
                     (m, r1) \<leftarrow> month_alts r, r1 \<noteq> [] \<and> hd r1 = CHR ''-'',
                     (d, rest) \<leftarrow> take 1 (day_alts (tl r1))] of
               [] \<Rightarrow> None
             | (m, d, rest) # _ \<Rightarrow> Some ([y1, y2, y3, y4], m, d, rest))
          else None
      | _ \<Rightarrow> None)"

text \<open>
  \<^verbatim>\<open>datetime.datetime.strptime(data_string, "%Y-%m-%d")\<close>: the time of day of the result
  is midnight, so the result is given as its date. Every failure is a \<^verbatim>\<open>ValueError\<close>.
\<close>

definition strptime :: "string \<Rightarrow> exn + date" where
  "strptime data_string =
     (case match_ymd data_string of
        None \<Rightarrow>
          Inl (Exn ValueError (''time data '' @ py_repr data_string
                 @ '' does not match format '' @ py_repr ''%Y-%m-%d''))
      | Some (y, m, d, rest) \<Rightarrow>
          if rest \<noteq> [] then Inl (Exn ValueError (''unconverted data remains: '' @ rest))
          else datetime_date (int_of_str y) (int_of_str m) (int_of_str d))"

section \<open>Floats\<close>

text \<open>
  A Python \<^verbatim>\<open>float\<close> is a binary64 number; a finite one is given by the rational it
  denotes. The operations the tools use are written out: rounding a rational to the
  nearest binary64 number (ties to even; the numbers met here are zero or in the
  normal range), the conversion of an integer with its overflow, \<^verbatim>\<open>round(x, 2)\<close> and
  the text of the rounded number.
\<close>

definition round_half_even :: "rat \<Rightarrow> int" where
  "round_half_even x =
     (let f = \<lfloor>x\<rfloor>; r = x - of_int f in
      if r < 1 / 2 then f else if 1 / 2 < r then f + 1 else if even f then f else f + 1)"

definition pow2 :: "int \<Rightarrow> rat" where
  "pow2 e = (if 0 \<le> e then 2 ^ nat e else 1 / 2 ^ nat (- e))"

text \<open>The exponent of a positive rational: the \<open>k\<close> with \<open>2 ^ k \<le> x < 2 ^ (k + 1)\<close>.\<close>

definition exponent2 :: "rat \<Rightarrow> int" where
  "exponent2 x =
     (let (a, b) = quotient_of x; k = bitlen a - bitlen b in
      if pow2 k \<le> x then k else k - 1)"

definition to_double :: "rat \<Rightarrow> rat" where
  "to_double x =
     (if x = 0 then 0
      else let e = exponent2 \<bar>x\<bar> - 52 in of_int (round_half_even (x / pow2 e)) * pow2 e)"

text \<open>\<^verbatim>\<open>float(n)\<close> for an integer: the nearest float, or \<^verbatim>\<open>OverflowError\<close>.\<close>

definition float_of_int :: "int \<Rightarrow> exn + rat" where
  "float_of_int n =
     (let x = to_double (of_int n) in
      if 2 ^ 1024 \<le> \<bar>x\<bar> then Inl (Exn OverflowError ''int too large to convert to float'')
      else Inr x)"

text \<open>
  \<^verbatim>\<open>round(x, 2)\<close> rounds the exact value of \<open>x\<close> to hundredths, ties to even, and
  returns the float nearest to that decimal. The result is kept as its sign and its
  hundredths; the sign matters for \<^verbatim>\<open>-0.0\<close>.
\<close>

datatype rounded = Rounded (is_negative: bool) (hundredths: nat)

definition py_round2 :: "rat \<Rightarrow> rounded" where
  "py_round2 x = Rounded (x < 0) (nat (round_half_even (\<bar>x\<bar> * 100)))"

definition rounded_value :: "rounded \<Rightarrow> rat" where
  "rounded_value r = (if is_negative r then - 1 else 1) * of_nat (hundredths r) / 100"

text \<open>
  The text of a float (\<^verbatim>\<open>repr\<close>, which an f-string uses) is the shortest decimal that
  reads back as the same float. For the float nearest to a decimal of at most 15
  significant digits that is the decimal itself, with at least one digit after the
  point. Longer ones are left to \<open>repr_large\<close>, CPython's own printing, taken as given.
\<close>

definition fraction_digits :: "nat \<Rightarrow> string" where
  "fraction_digits f =
     (if f mod 10 = 0 then [digit_char (f div 10)] else [digit_char (f div 10), digit_char (f mod 10)])"

definition float_repr :: "(rounded \<Rightarrow> string) \<Rightarrow> rounded \<Rightarrow> string" where
  "float_repr repr_large r =
     (if hundredths r < 10 ^ 15
      then (if is_negative r then ''-'' else '''') @ digits10 (hundredths r div 100)
             @ ''.'' @ fraction_digits (hundredths r mod 100)
      else repr_large r)"

section \<open>The tool \<^verbatim>\<open>calculate_days_between\<close>\<close>

text \<open>
  \<^verbatim>\<open>difference.days\<close> of two datetimes at midnight is the difference of their ordinals.
  \<^verbatim>\<open>days / 7\<close> and \<^verbatim>\<open>days / 365.25\<close> are the floats nearest to the quotients.
\<close>

definition days_between_text :: "(rounded \<Rightarrow> string) \<Rightarrow> int \<Rightarrow> string" where
  "days_between_text repr_large days =
     str_int days @ '' days (approximately ''
       @ float_repr repr_large (py_round2 (to_double (of_int days / 7))) @ '' weeks or ''
       @ float_repr repr_large (py_round2 (to_double (of_int days / (1461 / 4)))) @ '' years)''"

definition calculate_days_between :: "(rounded \<Rightarrow> string) \<Rightarrow> string \<Rightarrow> string \<Rightarrow> exn + string" where
  "calculate_days_between repr_large start_date end_date =
     (case
        (case strptime start_date of
           Inl e \<Rightarrow> Inl e
         | Inr start \<Rightarrow>
             (case strptime end_date of
                Inl e \<Rightarrow> Inl e
              | Inr end_d \<Rightarrow> Inr (days_between_text repr_large (toordinal end_d - toordinal start))))
      of
        Inr result \<Rightarrow> Inr result
      | Inl e \<Rightarrow>
          (if exn_class e = ValueError
           then Inr (''Invalid date format. Use YYYY-MM-DD. Error: '' @ exn_msg e)
           else Inl e))"

section \<open>The tool \<^verbatim>\<open>calculate_file_size\<close>\<close>

definition units :: "string list" where
  "units = [''bytes'', ''KB'', ''MB'', ''GB'', ''TB'', ''PB'']"

text \<open>
  The \<^verbatim>\<open>while\<close> loop. Dividing a float of at least 1024 by 1024 is exact, so the
  quotient is the rational quotient.
\<close>

function scale_loop :: "rat \<Rightarrow> nat \<Rightarrow> rat \<times> nat" where
  "scale_loop sz unit_index =
     (if 1024 \<le> sz \<and> unit_index < length units - 1
      then scale_loop (sz / 1024) (unit_index + 1)
      else (sz, unit_index))"
  by pat_completeness auto
termination
  by (relation "measure (\<lambda>(sz, unit_index). length units - unit_index)") auto

declare scale_loop.simps [simp del]

definition calculate_file_size :: "(rounded \<Rightarrow> string) \<Rightarrow> int \<Rightarrow> exn + string" where
  "calculate_file_size repr_large size_bytes =
     (case float_of_int size_bytes of
        Inl e \<Rightarrow> Inl e
      | Inr sz0 \<Rightarrow>
          (case scale_loop sz0 0 of
             (sz, unit_index) \<Rightarrow>
               Inr (float_repr repr_large (py_round2 sz) @ '' '' @ units ! unit_index)))"

section \<open>The remaining tools and what they read from outside\<close>

text \<open>
  The clock, the random generator, the UUID generator, the digests and the printing of
  long floats are not code of the repository. They are taken as given in an
  environment; a value read from outside may differ from one tool call to the next, so
  each is indexed by the position of the tool call in the invocation.
\<close>

record env =
  hashes :: hashlib
  now_isoformat :: "nat \<Rightarrow> string"
  rand_choice :: "nat \<Rightarrow> int \<Rightarrow> int \<Rightarrow> int"
  uuid4 :: "nat \<Rightarrow> string"
  repr_large :: "rounded \<Rightarrow> string"

definition get_current_timestamp :: "env \<Rightarrow> nat \<Rightarrow> string" where
  "get_current_timestamp e k = now_isoformat e k"

text \<open>
  \<^verbatim>\<open>random.randint(a, b)\<close> raises \<^verbatim>\<open>ValueError\<close> on an empty range; the text is the one
  of CPython 3.11. The tool has no handler.
\<close>

definition generate_random_number :: "env \<Rightarrow> nat \<Rightarrow> int \<Rightarrow> int \<Rightarrow> exn + int" where
  "generate_random_number e k min_val max_val =
     (if min_val \<le> max_val then Inr (rand_choice e k min_val max_val)
      else Inl (Exn ValueError (''empty range for randrange() ('' @ str_int min_val @ '', ''
             @ str_int (max_val + 1) @ '', '' @ str_int (max_val + 1 - min_val) @ '')'')))"

definition generate_uuid :: "env \<Rightarrow> nat \<Rightarrow> string" where
  "generate_uuid e k = uuid4 e k"

section \<open>The tool registry\<close>

text \<open>
  A tool returns a string or an integer. \<^verbatim>\<open>tool_func.invoke(tool_args)\<close> checks the
  arguments against the signature before the body runs: a parameter without a default
  must be present, and a value must have the annotated type, else pydantic raises
  \<^verbatim>\<open>ValidationError\<close> (its text is abbreviated here). Arguments the signature does not
  name are ignored.
\<close>

datatype tool_value = TStr string | TInt int

type_synonym tool_args = "(string \<times> pyval) list"

definition arg_int :: "tool_args \<Rightarrow> string \<Rightarrow> exn + int" where
  "arg_int args k =
     (case map_of args k of
        None \<Rightarrow> Inl (Exn ValidationError (k @ '': Field required''))
      | Some (PyInt n) \<Rightarrow> Inr n
      | Some _ \<Rightarrow> Inl (Exn ValidationError (k @ '': Input should be a valid integer'')))"

definition arg_str :: "tool_args \<Rightarrow> string \<Rightarrow> exn + string" where
  "arg_str args k =
     (case map_of args k of
        None \<Rightarrow> Inl (Exn ValidationError (k @ '': Field required''))
      | Some (PyStr s) \<Rightarrow> Inr s
      | Some _ \<Rightarrow> Inl (Exn ValidationError (k @ '': Input should be a valid string'')))"

definition arg_str_default :: "tool_args \<Rightarrow> string \<Rightarrow> string \<Rightarrow> exn + string" where
  "arg_str_default args k dflt =
     (case map_of args k of
        None \<Rightarrow> Inr dflt
      | Some (PyStr s) \<Rightarrow> Inr s
      | Some _ \<Rightarrow> Inl (Exn ValidationError (k @ '': Input should be a valid string'')))"

record tool =
  tool_name :: string
  tool_invoke :: "env \<Rightarrow> nat \<Rightarrow> tool_args \<Rightarrow> exn + tool_value"

definition get_current_timestamp_tool :: tool where
  "get_current_timestamp_tool =
     \<lparr>tool_name = ''get_current_timestamp'',
      tool_invoke = (\<lambda>e k args. Inr (TStr (get_current_timestamp e k)))\<rparr>"

definition generate_random_number_tool :: tool where
  "generate_random_number_tool =
     \<lparr>tool_name = ''generate_random_number'',
      tool_invoke = (\<lambda>e k args.
        case arg_int args ''min_val'' of Inl x \<Rightarrow> Inl x | Inr min_val \<Rightarrow>
        case arg_int args ''max_val'' of Inl x \<Rightarrow> Inl x | Inr max_val \<Rightarrow>
        case generate_random_number e k min_val max_val of Inl x \<Rightarrow> Inl x | Inr n \<Rightarrow> Inr (TInt n))\<rparr>"

definition generate_uuid_tool :: tool where
  "generate_uuid_tool =
     \<lparr>tool_name = ''generate_uuid'',
      tool_invoke = (\<lambda>e k args. Inr (TStr (generate_uuid e k)))\<rparr>"

definition hash_string_tool :: tool where
  "hash_string_tool =
     \<lparr>tool_name = ''hash_string'',
      tool_invoke = (\<lambda>e k args.
        case arg_str args ''text'' of Inl x \<Rightarrow> Inl x | Inr text \<Rightarrow>
        case arg_str_default args ''algorithm'' ''sha256'' of Inl x \<Rightarrow> Inl x | Inr algorithm \<Rightarrow>
        case hash_string (hashes e) (map of_char text) algorithm of
          Inl x \<Rightarrow> Inl x | Inr s \<Rightarrow> Inr (TStr s))\<rparr>"

definition calculate_file_size_tool :: tool where
  "calculate_file_size_tool =
     \<lparr>tool_name = ''calculate_file_size'',
      tool_invoke = (\<lambda>e k args.
        case arg_int args ''size_bytes'' of Inl x \<Rightarrow> Inl x | Inr size_bytes \<Rightarrow>
        case calculate_file_size (repr_large e) size_bytes of Inl x \<Rightarrow> Inl x | Inr s \<Rightarrow> Inr (TStr s))\<rparr>"

definition get_day_of_week_tool :: tool where
  "get_day_of_week_tool =
     \<lparr>tool_name = ''get_day_of_week'',
      tool_invoke = (\<lambda>e k args.
        case arg_int args ''year'' of Inl x \<Rightarrow> Inl x | Inr year \<Rightarrow>
        case arg_int args ''month'' of Inl x \<Rightarrow> Inl x | Inr month \<Rightarrow>
        case arg_int args ''day'' of Inl x \<Rightarrow> Inl x | Inr day \<Rightarrow>
        case get_day_of_week year month day of Inl x \<Rightarrow> Inl x | Inr s \<Rightarrow> Inr (TStr s))\<rparr>"

definition calculate_days_between_tool :: tool where
  "calculate_days_between_tool =
     \<lparr>tool_name = ''calculate_days_between'',
      tool_invoke = (\<lambda>e k args.
        case arg_str args ''start_date'' of Inl x \<Rightarrow> Inl x | Inr start_date \<Rightarrow>
        case arg_str args ''end_date'' of Inl x \<Rightarrow> Inl x | Inr end_date \<Rightarrow>
        case calculate_days_between (repr_large e) start_date end_date of
          Inl x \<Rightarrow> Inl x | Inr s \<Rightarrow> Inr (TStr s))\<rparr>"

definition tools :: "tool list" where
  "tools =
     [get_current_timestamp_tool, generate_random_number_tool, generate_uuid_tool,
      hash_string_tool, calculate_file_size_tool, get_day_of_week_tool,
      calculate_days_between_tool]"

section \<open>Messages and the model\<close>

text \<open>
  A tool call is the dictionary LangChain gives: \<^verbatim>\<open>name\<close> and \<^verbatim>\<open>args\<close> are always
  there, \<^verbatim>\<open>id\<close> may be missing (\<open>None\<close>). The model is not code of the repository: it
  is a function from the messages sent to a reply or an exception, indexed by the
  number of the call within the invocation, since it may answer differently each time.
\<close>

record tool_call =
  tc_name :: string
  tc_args :: tool_args
  tc_id :: "string option"

record ai_message =
  content :: pyval
  tool_calls :: "tool_call list"

datatype message =
  SystemMessage string
| HumanMessage pyval
| AIMessage ai_message
| ToolMessage string string

type_synonym llm = "nat \<Rightarrow> message list \<Rightarrow> exn + ai_message"

definition system_prompt :: string where
  "system_prompt =
     ''You are a helpful assistant with access to tools. '' @ [CHR 0x0A]
     @ ''You MUST use the available tools when asked about:'' @ [CHR 0x0A]
     @ ''- Current time/timestamp: use get_current_timestamp'' @ [CHR 0x0A]
     @ ''- Random numbers: use generate_random_number'' @ [CHR 0x0A]
     @ ''- UUIDs: use generate_uuid'' @ [CHR 0x0A]
     @ ''- Hashing: use hash_string'' @ [CHR 0x0A]
     @ ''- File size conversions: use calculate_file_size'' @ [CHR 0x0A]
     @ ''- Day of week: use get_day_of_week'' @ [CHR 0x0A]
     @ ''- Date calculations: use calculate_days_between'' @ [CHR 0x0A]
     @ [CHR 0x0A]
     @ ''Always provide the tool result in your response.''"

definition type_name :: "pyval \<Rightarrow> string" where
  "type_name v =
     (case v of PyNone \<Rightarrow> ''NoneType'' | PyBool _ \<Rightarrow> ''bool'' | PyInt _ \<Rightarrow> ''int''
      | PyFloat _ \<Rightarrow> ''float'' | PyStr _ \<Rightarrow> ''str'' | PyList _ \<Rightarrow> ''list'' | PyDict _ \<Rightarrow> ''dict'')"

text \<open>\<^verbatim>\<open>payload.get(key, default)\<close>: only a dictionary has the method.\<close>

definition payload_get :: "pyval \<Rightarrow> string \<Rightarrow> pyval \<Rightarrow> exn + pyval" where
  "payload_get payload k dflt =
     (case payload of
        PyDict kvs \<Rightarrow> Inr (case map_of kvs k of None \<Rightarrow> dflt | Some v \<Rightarrow> v)
      | _ \<Rightarrow> Inl (Exn AttributeError ([CHR 0x27] @ type_name payload @ [CHR 0x27]
                    @ '' object has no attribute '' @ [CHR 0x27] @ ''get'' @ [CHR 0x27])))"

text \<open>
  \<^verbatim>\<open>HumanMessage(content=...)\<close> accepts a string, or a list of strings and dictionaries;
  anything else is a \<^verbatim>\<open>ValidationError\<close>.
\<close>

definition is_content_block :: "pyval \<Rightarrow> bool" where
  "is_content_block v = (case v of PyStr _ \<Rightarrow> True | PyDict _ \<Rightarrow> True | _ \<Rightarrow> False)"

definition human_message :: "pyval \<Rightarrow> exn + message" where
  "human_message v =
     (case v of
        PyStr s \<Rightarrow> Inr (HumanMessage v)
      | PyList bs \<Rightarrow>
          (if list_all is_content_block bs then Inr (HumanMessage v)
           else Inl (Exn ValidationError ''content: Input should be a valid string or list''))
      | _ \<Rightarrow> Inl (Exn ValidationError ''content: Input should be a valid string or list''))"

section \<open>The dispatch loop and \<^verbatim>\<open>invoke_agent\<close>\<close>

text \<open>
  The inner \<^verbatim>\<open>for\<close> loop over the registry: the first tool of that name is invoked and
  the loop is left; \<open>None\<close> is the value \<^verbatim>\<open>tool_result\<close> starts with and keeps when no name
  matches.
\<close>

fun find_and_invoke :: "tool list \<Rightarrow> env \<Rightarrow> nat \<Rightarrow> string \<Rightarrow> tool_args \<Rightarrow> exn + tool_value option" where
  "find_and_invoke [] e i name args = Inr None"
| "find_and_invoke (tool_func # rest) e i name args =
     (if tool_name tool_func = name
      then (case tool_invoke tool_func e i args of Inl x \<Rightarrow> Inl x | Inr v \<Rightarrow> Inr (Some v))
      else find_and_invoke rest e i name args)"

text \<open>\<^verbatim>\<open>str(tool_result)\<close>.\<close>

definition str_tool_value :: "tool_value \<Rightarrow> string" where
  "str_tool_value v = (case v of TStr s \<Rightarrow> s | TInt n \<Rightarrow> str_int n)"

text \<open>One pass of the outer loop body: the tool message for one tool call.\<close>

definition execute_tool_call :: "env \<Rightarrow> nat \<Rightarrow> tool_call \<Rightarrow> exn + message" where
  "execute_tool_call e i tc =
     (let name = tc_name tc;
          args = tc_args tc;
          tool_call_id = (case tc_id tc of None \<Rightarrow> '''' | Some x \<Rightarrow> x)
      in case find_and_invoke tools e i name args of
           Inl x \<Rightarrow> Inl x
         | Inr found \<Rightarrow>
             (let tool_result =
                    (case found of None \<Rightarrow> TStr (''Tool '' @ name @ '' not found'') | Some v \<Rightarrow> v)
              in Inr (ToolMessage (str_tool_value tool_result) tool_call_id)))"

text \<open>
  The outer loop, \<^verbatim>\<open>for i, tool_call in enumerate(response.tool_calls)\<close>: each message
  is appended to \<open>messages\<close>; an exception leaves the loop.
\<close>

fun execute_tool_calls :: "env \<Rightarrow> nat \<Rightarrow> tool_call list \<Rightarrow> message list \<Rightarrow> exn + message list" where
  "execute_tool_calls e i [] messages = Inr messages"
| "execute_tool_calls e i (tc # tcs) messages =
     (case execute_tool_call e i tc of
        Inl x \<Rightarrow> Inl x
      | Inr m \<Rightarrow> execute_tool_calls e (Suc i) tcs (messages @ [m]))"

text \<open>
  The body of the \<^verbatim>\<open>try\<close> block. Its result is the content returned or the exception
  raised, together with the list of message histories the model was invoked with, in
  the order of the invocations.
\<close>

definition invoke_agent_try :: "env \<Rightarrow> llm \<Rightarrow> pyval \<Rightarrow> (exn + pyval) \<times> message list list" where
  "invoke_agent_try e model payload =
     (case payload_get payload ''prompt'' (PyStr ''Hello!'') of
        Inl x \<Rightarrow> (Inl x, [])
      | Inr user_input \<Rightarrow>
     (case human_message user_input of
        Inl x \<Rightarrow> (Inl x, [])
      | Inr human \<Rightarrow>
     (let messages = [SystemMessage system_prompt, human] in
      case model 0 messages of
        Inl x \<Rightarrow> (Inl x, [messages])
      | Inr response \<Rightarrow>
          if tool_calls response \<noteq> [] then
            (case execute_tool_calls e 0 (tool_calls response) (messages @ [AIMessage response]) of
               Inl x \<Rightarrow> (Inl x, [messages])
             | Inr messages' \<Rightarrow>
                 (case model 1 messages' of
                    Inl x \<Rightarrow> (Inl x, [messages, messages'])
                  | Inr final_response \<Rightarrow> (Inr (content final_response), [messages, messages'])))
          else (Inr (content response), [messages]))))"

text \<open>
  \<^verbatim>\<open>invoke_agent\<close>: the \<^verbatim>\<open>try\<close> block with its handler for \<^verbatim>\<open>Exception\<close>. The parameter
  \<^verbatim>\<open>context\<close> is not used by the source and is left out.
\<close>

definition invoke_agent :: "env \<Rightarrow> llm \<Rightarrow> pyval \<Rightarrow> pyval \<times> message list list" where
  "invoke_agent e model payload =
     (case invoke_agent_try e model payload of
        (Inr c, calls) \<Rightarrow> (PyDict [(''result'', c)], calls)
      | (Inl x, calls) \<Rightarrow> (PyDict [(''result'', PyStr (''Error: '' @ exn_msg x))], calls))"

section \<open>Dates written as \<^verbatim>\<open>YYYY-MM-DD\<close>\<close>




section \<open>A fixed environment and scripted models\<close>

text \<open>
  The closed examples need an environment and a model to run in: an environment with
  fixed answers, a model that gives a first and a second reply, and a model whose
  every call fails.
\<close>

definition example_env :: env where
  "example_env =
     \<lparr>hashes = \<lparr>md5 = take 16, sha1 = take 20, sha256 = take 32, sha512 = take 64\<rparr>,
      now_isoformat = (\<lambda>k. ''2025-01-01T00:00:00.000000''),
      rand_choice = (\<lambda>k a b. a),
      uuid4 = (\<lambda>k. ''00000000-0000-4000-8000-000000000000''),
      repr_large = (\<lambda>r. ''1e+16'')\<rparr>"

definition scripted_llm :: "ai_message \<Rightarrow> ai_message \<Rightarrow> llm" where
  "scripted_llm first second k messages = Inr (if k = 0 then first else second)"

definition failing_llm :: llm where
  "failing_llm k messages = Inl (Exn RuntimeError ''model endpoint unreachable'')"

definition result_text :: "string \<Rightarrow> tool_value option \<Rightarrow> string" where
  "result_text name found =
     (case found of None \<Rightarrow> ''Tool '' @ name @ '' not found'' | Some v \<Rightarrow> str_tool_value v)"

definition call_id :: "tool_call \<Rightarrow> string" where
  "call_id tc = (case tc_id tc of None \<Rightarrow> '''' | Some x \<Rightarrow> x)"


section \<open>Properties of \<^verbatim>\<open>hash_string\<close>\<close>


























section \<open>Properties of the calendar and of \<^verbatim>\<open>get_day_of_week\<close>\<close>

lemma month_cases:
  fixes m :: int
  assumes "1 \<le> m" "m \<le> 12"
  shows "m = 1 \<or> m = 2 \<or> m = 3 \<or> m = 4 \<or> m = 5 \<or> m = 6 \<or> m = 7 \<or> m = 8 \<or> m = 9
         \<or> m = 10 \<or> m = 11 \<or> m = 12"
  using assms by arith

lemma days_before_next_month:
  assumes "1 \<le> m" "m < 12"
  shows "days_before_month y (m + 1) = days_before_month y m + days_in_month y m"
proof -
  from assms month_cases [of m] show ?thesis
    by (auto simp: days_before_month_def days_in_month_def)
qed

lemma div_pred:
  fixes y n :: int
  assumes "0 < n"
  shows "y div n - (y - 1) div n = (if y mod n = 0 then 1 else 0)"
proof (cases "y mod n = 0")
  case True
  then have y: "y = n * (y div n)" by (metis mult_div_mod_eq add.right_neutral)
  have "y - 1 = n * (y div n - 1) + (n - 1)"
    using y by (simp add: algebra_simps)
  then have "(y - 1) div n = y div n - 1"
    by (rule int_div_pos_eq) (use assms in simp_all)
  with True show ?thesis by simp
next
  case False
  have r: "0 \<le> y mod n" "y mod n < n" using assms by simp_all
  with False have r1: "0 \<le> y mod n - 1" "y mod n - 1 < n" by simp_all
  have "y - 1 = n * (y div n) + (y mod n - 1)" by simp
  then have "(y - 1) div n = y div n"
    using r1 by (rule int_div_pos_eq)
  with False show ?thesis by simp
qed

lemma mod_400_100: "(y::int) mod 400 = 0 \<Longrightarrow> y mod 100 = 0"
proof -
  assume "y mod 400 = 0"
  then have "400 dvd y" by (simp add: dvd_eq_mod_eq_0)
  moreover have "(100::int) dvd 400" by simp
  ultimately have "100 dvd y" by (rule dvd_trans [rotated])
  then show ?thesis by (simp add: dvd_eq_mod_eq_0)
qed

lemma mod_100_4: "(y::int) mod 100 = 0 \<Longrightarrow> y mod 4 = 0"
proof -
  assume "y mod 100 = 0"
  then have "100 dvd y" by (simp add: dvd_eq_mod_eq_0)
  moreover have "(4::int) dvd 100" by simp
  ultimately have "4 dvd y" by (rule dvd_trans [rotated])
  then show ?thesis by (simp add: dvd_eq_mod_eq_0)
qed

lemma days_before_next_year:
  "days_before_year (y + 1) = days_before_year y + (if is_leap y then 366 else 365)"
proof -
  define a where "a = y div 4 - (y - 1) div 4"
  define b where "b = y div 100 - (y - 1) div 100"
  define c where "c = y div 400 - (y - 1) div 400"
  have unf: "days_before_year (y + 1) = days_before_year y + 365 + a - b + c"
    by (simp add: days_before_year_def a_def b_def c_def algebra_simps)
  have a: "a = (if y mod 4 = 0 then 1 else 0)" unfolding a_def by (rule div_pred) simp
  have b: "b = (if y mod 100 = 0 then 1 else 0)" unfolding b_def by (rule div_pred) simp
  have c: "c = (if y mod 400 = 0 then 1 else 0)" unfolding c_def by (rule div_pred) simp
  note d = mod_400_100 [of y] and e = mod_100_4 [of y]
  consider "y mod 4 \<noteq> 0" | "y mod 4 = 0" "y mod 100 \<noteq> 0" | "y mod 100 = 0" "y mod 400 \<noteq> 0"
    | "y mod 400 = 0" by argo
  then show ?thesis
  proof cases
    case 1
    then have "y mod 100 \<noteq> 0" "y mod 400 \<noteq> 0" using d e by auto
    with 1 show ?thesis by (simp add: unf a b c is_leap_def)
  next
    case 2
    then have "y mod 400 \<noteq> 0" using d by auto
    with 2 show ?thesis by (simp add: unf a b c is_leap_def)
  next
    case 3
    then have "y mod 4 = 0" using e by auto
    with 3 show ?thesis by (simp add: unf a b c is_leap_def)
  next
    case 4
    then have "y mod 100 = 0" "y mod 4 = 0" using d e by auto
    with 4 show ?thesis by (simp add: unf a b c is_leap_def)
  qed
qed

lemma valid_is_calendar_date: "valid_date d \<Longrightarrow> calendar_date d"
  by (simp add: valid_date_def calendar_date_def)

lemma ord_next_day:
  assumes "calendar_date d"
  shows "toordinal (next_day d) = toordinal d + 1"
proof (cases d)
  case (Date y m dd)
  with assms have v: "1 \<le> m" "m \<le> 12" "1 \<le> dd" "dd \<le> days_in_month y m"
    by (simp_all add: calendar_date_def)
  show ?thesis
  proof (cases "dd < days_in_month y m")
    case True
    then show ?thesis using Date by (simp add: next_day_def toordinal_def)
  next
    case False
    with v have dd: "dd = days_in_month y m" by simp
    show ?thesis
    proof (cases "m < 12")
      case True
      then show ?thesis using Date dd v days_before_next_month [of m y]
        by (simp add: next_day_def toordinal_def)
    next
      case False
      with v have m: "m = 12" by simp
      then have "dd = 31" using dd by (simp add: days_in_month_def)
      then show ?thesis using Date m days_before_next_year [of y]
        by (simp add: next_day_def toordinal_def days_before_month_def days_in_month_def)
    qed
  qed
qed




lemma weekday_step: "(x + 1 + 6) mod 7 = ((x + 6) mod 7 + 1) mod (7::int)"
  by (simp add: mod_simps)

lemma weekday_next_day:
  assumes "valid_date d"
  shows "weekday (next_day d) = (weekday d + 1) mod 7"
proof -
  have "weekday (next_day d) = (toordinal d + 1 + 6) mod 7"
    using ord_next_day [OF valid_is_calendar_date [OF assms]] by (simp only: weekday_def)
  then show ?thesis by (simp only: weekday_step weekday_def)
qed

lemma c_int_arg_in_range: "- (2 ^ 31) \<le> n \<Longrightarrow> n < 2 ^ 31 \<Longrightarrow> c_int_arg n = Inr n"
  by (simp add: c_int_arg_def)

lemma check_date_fields_valid:
  "valid_date (Date y m d) \<Longrightarrow> check_date_fields y m d = Inr (Date y m d)"
  by (auto simp: valid_date_def check_date_fields_def)

lemma check_date_fields_invalid:
  "\<not> valid_date (Date y m d) \<Longrightarrow> \<exists>msg. check_date_fields y m d = Inl (Exn ValueError msg)"
  by (auto simp: valid_date_def check_date_fields_def)

lemma weekday_range: "0 \<le> weekday d \<and> weekday d < 7"
  by (simp add: weekday_def)

lemma weekday_first_day: "weekday (Date 1 1 1) = 0"
  by (simp add: weekday_def toordinal_def days_before_year_def days_before_month_def)

lemma get_day_of_week_in_range:
  assumes "- (2 ^ 31) \<le> year" "year < 2 ^ 31" "- (2 ^ 31) \<le> month" "month < 2 ^ 31"
    "- (2 ^ 31) \<le> day" "day < 2 ^ 31"
  shows "(valid_date (Date year month day) \<longrightarrow>
           get_day_of_week year month day =
             Inr (str_int year @ ''-'' @ fmt_02d month @ ''-'' @ fmt_02d day @ '' was/is a ''
                   @ day_names ! nat (weekday (Date year month day))))
       \<and> (\<not> valid_date (Date year month day) \<longrightarrow>
           (\<exists>msg. get_day_of_week year month day = Inr (''Invalid date: '' @ msg)))"
proof -
  have dd: "datetime_date year month day = check_date_fields year month day"
    using assms by (simp add: datetime_date_def c_int_arg_in_range)
  show ?thesis
  proof (cases "valid_date (Date year month day)")
    case True
    then show ?thesis
      by (simp add: get_day_of_week_def dd check_date_fields_valid strftime_A_def)
  next
    case False
    then obtain msg where "check_date_fields year month day = Inl (Exn ValueError msg)"
      using check_date_fields_invalid by blast
    with False show ?thesis by (simp add: get_day_of_week_def dd)
  qed
qed

text \<open>
  Claim C5. The claim holds for arguments that fit a C \<^verbatim>\<open>int\<close> (the lemma above: a real
  date gives its weekday with the date written with two-digit month and day, anything
  else gives the text \<^verbatim>\<open>Invalid date: ...\<close>; the weekday advances by one with each
  calendar day from Monday 0001-01-01). It fails outside that range: the date
  constructor raises \<^verbatim>\<open>OverflowError\<close>, the handler catches \<^verbatim>\<open>ValueError\<close> only, and the
  exception leaves \<^verbatim>\<open>get_day_of_week\<close>.
\<close>

theorem get_day_of_week_overflow:
  "get_day_of_week 2147483648 1 1 = Inl (Exn OverflowError ''signed integer is greater than maximum'')"
  by (simp add: get_day_of_week_def datetime_date_def c_int_arg_def)

section \<open>Properties of rounding\<close>

lemma round_half_even_of_int: "round_half_even (of_int n) = n"
  by (simp add: round_half_even_def)

lemma round_half_even_error: "\<bar>of_int (round_half_even x) - x\<bar> \<le> 1 / 2"
proof -
  define f where "f = \<lfloor>x\<rfloor>"
  define r where "r = x - of_int f"
  have r: "0 \<le> r" "r < 1" unfolding r_def f_def by linarith+
  have x: "x = of_int f + r" by (simp add: r_def)
  consider "r < 1 / 2" | "1 / 2 < r" | "r = 1 / 2" by linarith
  then show ?thesis
  proof cases
    case 1
    then have "round_half_even x = f" by (simp add: round_half_even_def f_def r_def Let_def)
    with 1 r x show ?thesis by simp
  next
    case 2
    then have "round_half_even x = f + 1" by (simp add: round_half_even_def f_def r_def Let_def)
    with 2 r x show ?thesis by simp
  next
    case 3
    then have "round_half_even x = f \<or> round_half_even x = f + 1"
      by (simp add: round_half_even_def f_def r_def Let_def)
    with 3 r x show ?thesis by auto
  qed
qed

lemma round_half_even_nonneg: "0 \<le> x \<Longrightarrow> 0 \<le> round_half_even x"
  by (auto simp: round_half_even_def Let_def)

lemma py_round2_error: "\<bar>rounded_value (py_round2 x) - x\<bar> \<le> 1 / 200"
proof -
  define h where "h = round_half_even (\<bar>x\<bar> * 100)"
  have h0: "0 \<le> h" unfolding h_def by (rule round_half_even_nonneg) simp
  have e: "\<bar>of_int h - \<bar>x\<bar> * 100\<bar> \<le> 1 / 2" unfolding h_def by (rule round_half_even_error)
  have v: "rounded_value (py_round2 x) = (if x < 0 then - 1 else 1) * of_int h / 100"
    using h0 by (simp add: rounded_value_def py_round2_def h_def [symmetric])
  show ?thesis
  proof (cases "x < 0")
    case True
    with e have "\<bar>of_int h + x * 100\<bar> \<le> 1 / 2" by simp
    then have "of_int h + x * 100 \<le> 1 / 2" "- (of_int h + x * 100) \<le> 1 / 2"
      by (simp_all only: abs_le_iff)
    then have "\<bar>- of_int h / 100 - x\<bar> \<le> 1 / 200" unfolding abs_le_iff by (simp add: field_simps)
    moreover from True v have "rounded_value (py_round2 x) = - of_int h / 100" by simp
    ultimately show ?thesis by (simp only:)
  next
    case False
    with e have "\<bar>of_int h - x * 100\<bar> \<le> 1 / 2" by simp
    then have "of_int h - x * 100 \<le> 1 / 2" "- (of_int h - x * 100) \<le> 1 / 2"
      by (simp_all only: abs_le_iff)
    then have "\<bar>of_int h / 100 - x\<bar> \<le> 1 / 200" unfolding abs_le_iff by (simp add: field_simps)
    moreover from False v have "rounded_value (py_round2 x) = of_int h / 100" by simp
    ultimately show ?thesis by (simp only:)
  qed
qed

lemma pow2_powi: "pow2 e = 2 powi e"
  by (simp add: pow2_def power_int_def inverse_eq_divide power_one_over)

lemma pow2_pos: "0 < pow2 e"
  by (simp add: pow2_powi)

lemma pow2_add: "pow2 (a + b) = pow2 a * pow2 b"
  by (simp add: pow2_powi power_int_add)

lemma pow2_nat: "0 \<le> e \<Longrightarrow> pow2 e = 2 ^ nat e"
  by (simp add: pow2_def)

lemma pow2_mono: "a \<le> b \<Longrightarrow> pow2 a \<le> pow2 b"
  unfolding pow2_powi by (rule power_int_increasing) simp_all

lemma pow2_less_imp: "pow2 a < pow2 b \<Longrightarrow> a < b"
  using pow2_mono [of b a] by (cases "a < b") simp_all

lemma bitlen_pow2_bounds:
  assumes "0 < a"
  shows "pow2 (bitlen a - 1) \<le> of_int a" and "of_int a < pow2 (bitlen a)"
proof -
  from assms have b1: "1 \<le> bitlen a" by (auto simp: bitlen_alt_def)
  from bitlen_bounds [OF assms] have l: "2 ^ nat (bitlen a - 1) \<le> a" and u: "a < 2 ^ nat (bitlen a)"
    by simp_all
  from l have "(of_int (2 ^ nat (bitlen a - 1)) :: rat) \<le> of_int a" by (simp only: of_int_le_iff)
  then show "pow2 (bitlen a - 1) \<le> of_int a" using b1 by (simp add: pow2_nat)
  from u have "(of_int a :: rat) < of_int (2 ^ nat (bitlen a))" by (simp only: of_int_less_iff)
  then show "of_int a < pow2 (bitlen a)" using b1 by (simp add: pow2_nat)
qed

lemma exponent2_bounds:
  assumes "0 < x"
  shows "pow2 (exponent2 x) \<le> x" and "x < pow2 (exponent2 x + 1)"
proof -
  obtain a b where q: "quotient_of x = (a, b)" by (cases "quotient_of x") simp
  then have b0: "0 < b" by (rule quotient_of_denom_pos)
  from q have x: "x = of_int a / of_int b" by (rule quotient_of_div)
  have a0: "0 < a"
  proof (rule ccontr)
    assume "\<not> 0 < a"
    then have "(of_int a :: rat) \<le> 0" by simp
    moreover from b0 have "(0 :: rat) < of_int b" by simp
    ultimately have "x \<le> 0" unfolding x by (simp add: divide_le_0_iff)
    with assms show False by simp
  qed
  define k where "k = bitlen a - bitlen b"
  have rb: "(0 :: rat) < of_int b" using b0 by simp
  note ba = bitlen_pow2_bounds [OF a0] and bb = bitlen_pow2_bounds [OF b0]
  have e: "exponent2 x = (if pow2 k \<le> x then k else k - 1)"
    by (simp add: exponent2_def q k_def Let_def)
  have up: "x < pow2 (k + 1)"
  proof -
    have "of_int a < pow2 (k + 1) * pow2 (bitlen b - 1)"
      using ba(2) by (simp add: pow2_add [symmetric] k_def)
    also have "\<dots> \<le> pow2 (k + 1) * of_int b"
      using bb(1) pow2_pos [of "k + 1"] by simp
    finally show ?thesis unfolding x using rb by (simp add: pos_divide_less_eq)
  qed
  have lo: "pow2 (k - 1) \<le> x"
  proof -
    have "pow2 (k - 1) * of_int b \<le> pow2 (k - 1) * pow2 (bitlen b)"
      using bb(2) pow2_pos [of "k - 1"] by simp
    also have "\<dots> = pow2 (bitlen a - 1)" by (simp add: pow2_add [symmetric] k_def)
    also have "\<dots> \<le> of_int a" by (rule ba(1))
    finally show ?thesis unfolding x using rb by (simp add: pos_le_divide_eq)
  qed
  show "pow2 (exponent2 x) \<le> x" using lo by (simp add: e)
  show "x < pow2 (exponent2 x + 1)" using up by (auto simp add: e)
qed

lemma to_double_error:
  assumes "x \<noteq> 0"
  shows "\<bar>to_double x - x\<bar> \<le> pow2 (exponent2 \<bar>x\<bar> - 53)"
proof -
  define e where "e = exponent2 \<bar>x\<bar> - 52"
  define m where "m = round_half_even (x / pow2 e)"
  have t: "to_double x = of_int m * pow2 e"
    using assms by (simp add: to_double_def e_def m_def Let_def)
  have p: "0 < pow2 e" by (rule pow2_pos)
  have "\<bar>of_int m - x / pow2 e\<bar> \<le> 1 / 2" unfolding m_def by (rule round_half_even_error)
  then have "\<bar>of_int m - x / pow2 e\<bar> * pow2 e \<le> 1 / 2 * pow2 e"
    using p by (simp only: mult_le_cancel_right_pos)
  moreover have "\<bar>of_int m - x / pow2 e\<bar> * pow2 e = \<bar>of_int m * pow2 e - x\<bar>"
  proof -
    have "\<bar>of_int m - x / pow2 e\<bar> * pow2 e = \<bar>(of_int m - x / pow2 e) * pow2 e\<bar>"
      using p by (simp add: abs_mult)
    also have "(of_int m - x / pow2 e) * pow2 e = of_int m * pow2 e - x"
      using p by (simp add: field_simps)
    finally show ?thesis .
  qed
  moreover have "1 / 2 * pow2 e = pow2 (exponent2 \<bar>x\<bar> - 53)"
  proof -
    have "pow2 e = pow2 (exponent2 \<bar>x\<bar> - 53) * pow2 1"
      by (simp add: pow2_add [symmetric] e_def)
    then show ?thesis by (simp add: pow2_def)
  qed
  ultimately show ?thesis by (simp only: t)
qed

lemma to_double_relative_error: "\<bar>to_double x - x\<bar> \<le> \<bar>x\<bar> / 2 ^ 53"
proof (cases "x = 0")
  case True
  then show ?thesis by (simp add: to_double_def)
next
  case False
  then have a: "0 < \<bar>x\<bar>" by simp
  have "pow2 (exponent2 \<bar>x\<bar>) = pow2 (exponent2 \<bar>x\<bar> - 53) * pow2 53"
    by (simp add: pow2_add [symmetric])
  then have "pow2 (exponent2 \<bar>x\<bar> - 53) = pow2 (exponent2 \<bar>x\<bar>) / 2 ^ 53"
    by (simp add: pow2_def)
  also have "\<dots> \<le> \<bar>x\<bar> / 2 ^ 53"
    using exponent2_bounds(1) [OF a] by (simp add: divide_right_mono)
  finally show ?thesis using to_double_error [OF False] by linarith
qed

lemma to_double_in_range:
  assumes "\<bar>x\<bar> < 2 ^ 1024 - 2 ^ 970"
  shows "\<bar>to_double x\<bar> < 2 ^ 1024"
proof (cases "x = 0")
  case True
  then show ?thesis by (simp add: to_double_def)
next
  case False
  then have a: "0 < \<bar>x\<bar>" by simp
  define k where "k = exponent2 \<bar>x\<bar>"
  have "pow2 k \<le> \<bar>x\<bar>" unfolding k_def by (rule exponent2_bounds(1) [OF a])
  also have "\<bar>x\<bar> < pow2 1024" using assms by (simp add: pow2_def)
  finally have "k < 1024" by (rule pow2_less_imp)
  have err: "\<bar>to_double x - x\<bar> \<le> pow2 (k - 53)"
    unfolding k_def by (rule to_double_error [OF False])
  show ?thesis
  proof (cases "k = 1023")
    case True
    then have "pow2 (k - 53) = 2 ^ 970" by (simp add: pow2_def)
    with err assms show ?thesis by linarith
  next
    case False
    with \<open>k < 1024\<close> have k: "k \<le> 1022" by simp
    have "\<bar>x\<bar> < pow2 (k + 1)" unfolding k_def by (rule exponent2_bounds(2) [OF a])
    also have "\<dots> \<le> pow2 1023" using k by (intro pow2_mono) simp
    finally have 1: "\<bar>x\<bar> < 2 ^ 1023" by (simp add: pow2_def)
    have "pow2 (k - 53) \<le> pow2 969" using k by (intro pow2_mono) simp
    then have 2: "pow2 (k - 53) \<le> 2 ^ 969" by (simp add: pow2_def)
    have 3: "(2 :: rat) ^ 1023 + 2 ^ 969 \<le> 2 ^ 1024" by simp
    from err 1 2 3 show ?thesis by linarith
  qed
qed

lemma float_of_int_in_range:
  assumes "\<bar>n\<bar> < 2 ^ 1024 - 2 ^ 970"
  shows "float_of_int n = Inr (to_double (of_int n))"
proof -
  from assms have "(of_int \<bar>n\<bar> :: rat) < of_int (2 ^ 1024 - 2 ^ 970)" by (simp only: of_int_less_iff)
  then have "\<bar>of_int n :: rat\<bar> < 2 ^ 1024 - 2 ^ 970" by simp
  then have "\<bar>to_double (of_int n)\<bar> < 2 ^ 1024" by (rule to_double_in_range)
  then show ?thesis by (simp add: float_of_int_def Let_def)
qed

lemma to_double_of_int:
  assumes "\<bar>n\<bar> < 2 ^ 53"
  shows "to_double (of_int n) = of_int n"
proof (cases "n = 0")
  case True
  then show ?thesis by (simp add: to_double_def)
next
  case False
  define x :: rat where "x = of_int n"
  from False have x0: "x \<noteq> 0" and a: "0 < \<bar>x\<bar>" by (simp_all add: x_def)
  define e where "e = exponent2 \<bar>x\<bar> - 52"
  have "pow2 (exponent2 \<bar>x\<bar>) \<le> \<bar>x\<bar>" by (rule exponent2_bounds(1) [OF a])
  also have "\<bar>x\<bar> < pow2 53"
  proof -
    from assms have "(of_int \<bar>n\<bar> :: rat) < of_int (2 ^ 53)" by (simp only: of_int_less_iff)
    then show ?thesis by (simp add: x_def pow2_def)
  qed
  finally have "exponent2 \<bar>x\<bar> < 53" by (rule pow2_less_imp)
  then have e0: "e \<le> 0" by (simp add: e_def)
  define j where "j = nat (- e)"
  have p: "pow2 e = 1 / 2 ^ j"
  proof (cases "e = 0")
    case True
    then show ?thesis by (simp add: pow2_def j_def)
  next
    case False
    with e0 show ?thesis by (simp add: pow2_def j_def)
  qed
  have "x / pow2 e = of_int (n * 2 ^ j)" by (simp add: p x_def)
  then have "round_half_even (x / pow2 e) = n * 2 ^ j" by (simp only: round_half_even_of_int)
  then have "to_double x = of_int (n * 2 ^ j) * (1 / 2 ^ j)"
    using x0 by (simp add: to_double_def e_def [symmetric] Let_def p)
  then show ?thesis by (simp add: x_def)
qed

lemma exponent2_unique:
  assumes "0 < x" "pow2 k \<le> x" "x < pow2 (k + 1)"
  shows "exponent2 x = k"
proof -
  have "pow2 (exponent2 x) \<le> x" by (rule exponent2_bounds(1) [OF assms(1)])
  with assms(3) have "pow2 (exponent2 x) < pow2 (k + 1)" by simp
  then have 1: "exponent2 x < k + 1" by (rule pow2_less_imp)
  have "x < pow2 (exponent2 x + 1)" by (rule exponent2_bounds(2) [OF assms(1)])
  with assms(2) have "pow2 k < pow2 (exponent2 x + 1)" by simp
  then have "k < exponent2 x + 1" by (rule pow2_less_imp)
  with 1 show ?thesis by simp
qed

lemma to_double_pow2: "to_double (pow2 k) = pow2 k"
proof -
  have "pow2 1 = 2" by (simp add: pow2_def)
  then have s: "pow2 (k + 1) = pow2 k * 2" by (simp only: pow2_add)
  have "pow2 k < pow2 (k + 1)" unfolding s using pow2_pos [of k] by simp
  then have e: "exponent2 (pow2 k) = k"
    using pow2_pos [of k] by (intro exponent2_unique) simp_all
  have "pow2 k = pow2 52 * pow2 (k - 52)" by (simp add: pow2_add [symmetric])
  then have d: "pow2 k / pow2 (k - 52) = pow2 52" using pow2_pos [of "k - 52"] by simp
  have "pow2 52 = of_int (2 ^ 52)" by (simp add: pow2_def)
  then have "round_half_even (pow2 52) = 2 ^ 52" by (simp only: round_half_even_of_int)
  then have "to_double (pow2 k) = of_int (2 ^ 52) * pow2 (k - 52)"
    using pow2_pos [of k] by (simp add: to_double_def e d Let_def)
  also have "of_int (2 ^ 52) = pow2 52" by (simp add: pow2_def)
  also have "pow2 52 * pow2 (k - 52) = pow2 k" by (simp add: pow2_add [symmetric])
  finally show ?thesis .
qed

section \<open>Properties of \<^verbatim>\<open>calculate_days_between\<close>\<close>




































section \<open>Properties of \<^verbatim>\<open>calculate_file_size\<close>\<close>

lemma length_units: "length units = 6"
  by (simp add: units_def)

lemma scale_loop_result:
  "i \<le> 5 \<Longrightarrow>
   \<exists>k. i \<le> k \<and> k \<le> 5 \<and> scale_loop sz i = (sz / 1024 ^ (k - i), k)
       \<and> (k < 5 \<longrightarrow> sz / 1024 ^ (k - i) < 1024)
       \<and> (\<forall>j. i \<le> j \<and> j < k \<longrightarrow> 1024 \<le> sz / 1024 ^ (j - i))"
proof (induction sz i rule: scale_loop.induct)
  case (1 sz i)
  show ?case
  proof (cases "1024 \<le> sz \<and> i < 5")
    case False
    then have "scale_loop sz i = (sz, i)"
      by (subst scale_loop.simps) (auto simp add: length_units)
    with False 1(2) show ?thesis
      by (intro exI [of _ i]) auto
  next
    case True
    then have s: "scale_loop sz i = scale_loop (sz / 1024) (i + 1)"
      by (subst scale_loop.simps) (auto simp add: length_units)
    from True have "1024 \<le> sz \<and> i < length units - 1" by (simp add: length_units)
    moreover from True have "i + 1 \<le> 5" by simp
    ultimately obtain k where k: "i + 1 \<le> k" "k \<le> 5"
      "scale_loop (sz / 1024) (i + 1) = (sz / 1024 / 1024 ^ (k - (i + 1)), k)"
      "k < 5 \<longrightarrow> sz / 1024 / 1024 ^ (k - (i + 1)) < 1024"
      "\<forall>j. i + 1 \<le> j \<and> j < k \<longrightarrow> 1024 \<le> sz / 1024 / 1024 ^ (j - (i + 1))"
      using 1(1) by blast
    have p: "sz / 1024 / 1024 ^ (j - (i + 1)) = sz / 1024 ^ (j - i)" if "i + 1 \<le> j" for j
    proof -
      from that have "j - i = Suc (j - (i + 1))" by simp
      then show ?thesis by simp
    qed
    have "\<forall>j. i \<le> j \<and> j < k \<longrightarrow> 1024 \<le> sz / 1024 ^ (j - i)"
    proof (intro allI impI)
      fix j assume j: "i \<le> j \<and> j < k"
      show "1024 \<le> sz / 1024 ^ (j - i)"
      proof (cases "j = i")
        case True
        with \<open>1024 \<le> sz \<and> i < 5\<close> show ?thesis by simp
      next
        case False
        with j have ij: "i + 1 \<le> j" by simp
        with k(5) j have "1024 \<le> sz / 1024 / 1024 ^ (j - (i + 1))" by blast
        then show ?thesis by (simp only: p [OF ij])
      qed
    qed
    moreover have "scale_loop sz i = (sz / 1024 ^ (k - i), k)"
      using s k(3) by (simp only: p [OF k(1)])
    moreover have "k < 5 \<longrightarrow> sz / 1024 ^ (k - i) < 1024"
      using k(4) by (simp only: p [OF k(1)])
    moreover have "i \<le> k" using k(1) by simp
    ultimately show ?thesis using k(2)
      by (intro exI [of _ k]) blast
  qed
qed

lemma float_of_small_int: "\<bar>n\<bar> < 2 ^ 53 \<Longrightarrow> float_of_int n = Inr (of_int n)"
proof -
  assume a: "\<bar>n\<bar> < 2 ^ 53"
  then have "\<bar>n\<bar> < 2 ^ 1024 - 2 ^ 970" by simp
  then have "float_of_int n = Inr (to_double (of_int n))" by (rule float_of_int_in_range)
  then show ?thesis by (simp only: to_double_of_int [OF a])
qed

lemma file_size_example_1536: "calculate_file_size r 1536 = Inr ''1.5 KB''"
proof -
  have f: "float_of_int 1536 = Inr 1536" using float_of_small_int [of 1536] by simp
  have s: "scale_loop 1536 0 = (3 / 2, 1)"
    by (simp add: scale_loop.simps [of 1536 0] scale_loop.simps [of "3 / 2" "Suc 0"] length_units)
  have "py_round2 (3 / 2) = Rounded False 150"
    using round_half_even_of_int [of 150] by (simp add: py_round2_def)
  then show ?thesis
    by (simp add: calculate_file_size_def f s float_repr_def fraction_digits_def digits10.simps
        digit_char_def units_def)
qed

lemma file_size_example_5: "calculate_file_size r 5 = Inr ''5.0 bytes''"
proof -
  have f: "float_of_int 5 = Inr 5" using float_of_small_int [of 5] by simp
  have s: "scale_loop 5 0 = (5, 0)"
    by (simp add: scale_loop.simps [of 5 0])
  have "py_round2 5 = Rounded False 500"
    using round_half_even_of_int [of 500] by (simp add: py_round2_def)
  then show ?thesis
    by (simp add: calculate_file_size_def f s float_repr_def fraction_digits_def digits10.simps
        digit_char_def units_def)
qed

lemma float_overflow_example:
  "float_of_int (2 ^ 1024) = Inl (Exn OverflowError ''int too large to convert to float'')"
proof -
  have x: "(of_int (2 ^ 1024) :: rat) = pow2 1024" by (simp add: pow2_def)
  have "(2 :: rat) ^ 1024 \<le> \<bar>pow2 1024\<bar>" by (simp add: pow2_def)
  then show ?thesis
    unfolding float_of_int_def Let_def x to_double_pow2 by (simp only: if_True)
qed

lemma calculate_file_size_scaled:
  assumes "float_of_int n = Inr sz0"
  shows "\<exists>k\<le>5. calculate_file_size r n
             = Inr (float_repr r (py_round2 (sz0 / 1024 ^ k)) @ '' '' @ units ! k)
           \<and> (k < 5 \<longrightarrow> sz0 / 1024 ^ k < 1024)
           \<and> (\<forall>j<k. 1024 \<le> sz0 / 1024 ^ j)
           \<and> \<bar>rounded_value (py_round2 (sz0 / 1024 ^ k)) * 1024 ^ k - sz0\<bar> \<le> 1024 ^ k / 200"
proof -
  from scale_loop_result [of 0 sz0] obtain k where k: "k \<le> 5"
    "scale_loop sz0 0 = (sz0 / 1024 ^ k, k)" "k < 5 \<longrightarrow> sz0 / 1024 ^ k < 1024"
    "\<forall>j. j < k \<longrightarrow> 1024 \<le> sz0 / 1024 ^ j"
    by auto
  define v where "v = rounded_value (py_round2 (sz0 / 1024 ^ k))"
  have p: "(0 :: rat) < 1024 ^ k" by simp
  have "\<bar>v - sz0 / 1024 ^ k\<bar> \<le> 1 / 200" unfolding v_def by (rule py_round2_error)
  then have "\<bar>v - sz0 / 1024 ^ k\<bar> * 1024 ^ k \<le> 1 / 200 * 1024 ^ k"
    using p by (simp only: mult_le_cancel_right_pos)
  moreover have "\<bar>v - sz0 / 1024 ^ k\<bar> * 1024 ^ k = \<bar>v * 1024 ^ k - sz0\<bar>"
  proof -
    have "\<bar>v - sz0 / 1024 ^ k\<bar> * 1024 ^ k = \<bar>(v - sz0 / 1024 ^ k) * 1024 ^ k\<bar>"
      by (simp add: abs_mult)
    also have "(v - sz0 / 1024 ^ k) * 1024 ^ k = v * 1024 ^ k - sz0"
      by (simp add: field_simps)
    finally show ?thesis .
  qed
  ultimately have "\<bar>v * 1024 ^ k - sz0\<bar> \<le> 1024 ^ k / 200" by simp
  moreover have "calculate_file_size r n
      = Inr (float_repr r (py_round2 (sz0 / 1024 ^ k)) @ '' '' @ units ! k)"
    by (simp add: calculate_file_size_def assms k(2))
  ultimately show ?thesis using k(1,3,4) unfolding v_def by blast
qed

lemma file_size_overflow_example:
  "calculate_file_size r (2 ^ 1024) = Inl (Exn OverflowError ''int too large to convert to float'')"
  unfolding calculate_file_size_def float_overflow_example by (simp only: sum.case)

text \<open>
  Claim C6, as amended. For an integer byte count \<open>n\<close> below \<open>2 ^ 1024 - 2 ^ 970\<close> in
  magnitude the conversion \<^verbatim>\<open>float(size_bytes)\<close> gives a float \<open>sz0\<close> within \<open>\<bar>n\<bar> / 2 ^ 53\<close>
  of \<open>n\<close>, and equal to \<open>n\<close> below \<open>2 ^ 53\<close>. Whenever the conversion gives \<open>sz0\<close>,
  \<^verbatim>\<open>calculate_file_size\<close> returns the text \<^verbatim>\<open>value unit\<close> where the unit is the one of
  index \<open>k\<close> in (bytes, KB, MB, GB, TB, PB), \<open>k\<close> being the smallest index for which
  \<open>sz0 / 1024 ^ k\<close> is strictly less than 1024, or 5 (PB) when there is none: the
  quotient is below 1024 unless the unit is PB, and it is 1024 or more for every
  smaller unit. The value is that quotient rounded to two decimals, so that
  \<open>value * 1024 ^ k\<close> is within \<open>1024 ^ k / 200\<close> of \<open>sz0\<close>. When the conversion raises
  (\<^verbatim>\<open>OverflowError\<close>), so does the tool.
\<close>

theorem calculate_file_size_result:
  "(\<bar>n\<bar> < 2 ^ 1024 - 2 ^ 970 \<longrightarrow>
      (\<exists>sz0. float_of_int n = Inr sz0 \<and> \<bar>sz0 - of_int n\<bar> \<le> \<bar>of_int n\<bar> / 2 ^ 53
         \<and> (\<bar>n\<bar> < 2 ^ 53 \<longrightarrow> sz0 = of_int n)))
   \<and> (float_of_int n = Inr sz0 \<longrightarrow>
      (\<exists>k\<le>5. calculate_file_size r n
                 = Inr (float_repr r (py_round2 (sz0 / 1024 ^ k)) @ '' '' @ units ! k)
         \<and> (k < 5 \<longrightarrow> sz0 / 1024 ^ k < 1024)
         \<and> (\<forall>j<k. 1024 \<le> sz0 / 1024 ^ j)
         \<and> \<bar>rounded_value (py_round2 (sz0 / 1024 ^ k)) * 1024 ^ k - sz0\<bar> \<le> 1024 ^ k / 200))
   \<and> (float_of_int n = Inl e \<longrightarrow> calculate_file_size r n = Inl e)"
proof (intro conjI impI)
  assume a: "\<bar>n\<bar> < 2 ^ 1024 - 2 ^ 970"
  have "float_of_int n = Inr (to_double (of_int n))" by (rule float_of_int_in_range [OF a])
  moreover have "\<bar>to_double (of_int n) - of_int n\<bar> \<le> \<bar>of_int n\<bar> / 2 ^ 53"
    by (rule to_double_relative_error)
  moreover have "\<bar>n\<bar> < 2 ^ 53 \<longrightarrow> to_double (of_int n) = of_int n"
    by (simp add: to_double_of_int)
  ultimately show "\<exists>sz0. float_of_int n = Inr sz0 \<and> \<bar>sz0 - of_int n\<bar> \<le> \<bar>of_int n\<bar> / 2 ^ 53
         \<and> (\<bar>n\<bar> < 2 ^ 53 \<longrightarrow> sz0 = of_int n)"
    by blast
next
  assume "float_of_int n = Inr sz0"
  then show "\<exists>k\<le>5. calculate_file_size r n
                 = Inr (float_repr r (py_round2 (sz0 / 1024 ^ k)) @ '' '' @ units ! k)
         \<and> (k < 5 \<longrightarrow> sz0 / 1024 ^ k < 1024)
         \<and> (\<forall>j<k. 1024 \<le> sz0 / 1024 ^ j)
         \<and> \<bar>rounded_value (py_round2 (sz0 / 1024 ^ k)) * 1024 ^ k - sz0\<bar> \<le> 1024 ^ k / 200"
    by (rule calculate_file_size_scaled)
next
  assume "float_of_int n = Inl e"
  then show "calculate_file_size r n = Inl e" by (simp add: calculate_file_size_def)
qed

theorem calculate_file_size_result_witness:
  "(\<bar>1536 :: int\<bar> < 2 ^ 1024 - 2 ^ 970 \<and> \<bar>1536 :: int\<bar> < 2 ^ 53
    \<and> float_of_int 1536 = Inr 1536
    \<and> calculate_file_size (repr_large example_env) 1536 = Inr ''1.5 KB''
    \<and> (1536 :: rat) / 1024 ^ 1 < 1024 \<and> (1024 :: rat) \<le> 1536 / 1024 ^ 0)
   \<and> float_of_int (2 ^ 1024) = Inl (Exn OverflowError ''int too large to convert to float'')
   \<and> calculate_file_size (repr_large example_env) (2 ^ 1024)
       = Inl (Exn OverflowError ''int too large to convert to float'')"
proof -
  have small: "\<bar>1536 :: int\<bar> < 2 ^ 1024 - 2 ^ 970 \<and> \<bar>1536 :: int\<bar> < 2 ^ 53
    \<and> float_of_int 1536 = Inr 1536
    \<and> calculate_file_size (repr_large example_env) 1536 = Inr ''1.5 KB''
    \<and> (1536 :: rat) / 1024 ^ 1 < 1024 \<and> (1024 :: rat) \<le> 1536 / 1024 ^ 0"
    using calculate_file_size_result [of 1536 1536 "repr_large example_env"
      "Exn OverflowError ''int too large to convert to float''"]
    by (simp add: float_of_small_int file_size_example_1536)
  have large: "calculate_file_size (repr_large example_env) (2 ^ 1024)
       = Inl (Exn OverflowError ''int too large to convert to float'')"
    by (rule calculate_file_size_result [THEN conjunct2, THEN conjunct2, THEN mp,
          OF float_overflow_example])
  show ?thesis by (rule conjI [OF small conjI [OF float_overflow_example large]])
qed

theorem calculate_file_size_counterexample:
  "calculate_file_size (repr_large example_env) 5 = Inr ''5.0 bytes''
   \<and> (5 :: rat) / 1024 ^ 5 < 1024 \<and> units ! 5 = ''PB''
   \<and> calculate_file_size (repr_large example_env) (2 ^ 1024)
       = Inl (Exn OverflowError ''int too large to convert to float'')"
proof -
  have a: "(5 :: rat) / 1024 ^ 5 < 1024" by simp
  have b: "units ! 5 = ''PB''" by (simp add: units_def)
  show ?thesis
    by (intro conjI a b file_size_example_5 file_size_overflow_example)
qed

section \<open>Properties of the dispatch loop\<close>

lemma tool_names:
  "map tool_name tools =
     [''get_current_timestamp'', ''generate_random_number'', ''generate_uuid'', ''hash_string'',
      ''calculate_file_size'', ''get_day_of_week'', ''calculate_days_between'']"
  by (simp add: tools_def get_current_timestamp_tool_def generate_random_number_tool_def
      generate_uuid_tool_def hash_string_tool_def calculate_file_size_tool_def
      get_day_of_week_tool_def calculate_days_between_tool_def)

lemma find_and_invoke_unknown:
  "name \<notin> set (map tool_name ts) \<Longrightarrow> find_and_invoke ts e i name args = Inr None"
  by (induction ts) auto

lemma execute_tool_call_eq:
  "execute_tool_call e i tc =
     (case find_and_invoke tools e i (tc_name tc) (tc_args tc) of
        Inl x \<Rightarrow> Inl x
      | Inr found \<Rightarrow> Inr (ToolMessage (result_text (tc_name tc) found) (call_id tc)))"
  by (simp add: execute_tool_call_def result_text_def call_id_def str_tool_value_def Let_def
      split: sum.splits option.splits)

lemma example_env_sel [simp]:
  "now_isoformat example_env k = ''2025-01-01T00:00:00.000000''"
  "rand_choice example_env k a b = a"
  "uuid4 example_env k = ''00000000-0000-4000-8000-000000000000''"
  by (simp_all add: example_env_def)

lemma run_uuid:
  "find_and_invoke tools e i ''generate_uuid'' args = Inr (Some (TStr (uuid4 e i)))"
  by (simp add: tools_def get_current_timestamp_tool_def generate_random_number_tool_def
      generate_uuid_tool_def generate_uuid_def)

lemma run_random:
  "find_and_invoke tools e i ''generate_random_number'' [(''min_val'', PyInt a), (''max_val'', PyInt b)]
     = (case generate_random_number e i a b of Inl x \<Rightarrow> Inl x | Inr n \<Rightarrow> Inr (Some (TInt n)))"
  by (simp add: tools_def get_current_timestamp_tool_def generate_random_number_tool_def
      arg_int_def split: sum.splits)

text \<open>
  Claim C3. A tool call whose name is the name of no registered tool gets the text
  \<^verbatim>\<open>Tool <name> not found\<close> as its result, in a tool message with the call's id; no
  exception is raised for it, and the loop goes on with the calls that remain.
\<close>

theorem unknown_tool_not_found:
  assumes "tc_name tc \<notin> set (map tool_name tools)"
  shows "execute_tool_call e i tc =
           Inr (ToolMessage (''Tool '' @ tc_name tc @ '' not found'')
                  (case tc_id tc of None \<Rightarrow> '''' | Some x \<Rightarrow> x))
         \<and> execute_tool_calls e i (tc # rest) messages =
             execute_tool_calls e (Suc i) rest
               (messages @ [ToolMessage (''Tool '' @ tc_name tc @ '' not found'')
                              (case tc_id tc of None \<Rightarrow> '''' | Some x \<Rightarrow> x)])"
proof -
  have "find_and_invoke tools e i (tc_name tc) (tc_args tc) = Inr None"
    using assms by (rule find_and_invoke_unknown)
  then have one: "execute_tool_call e i tc =
           Inr (ToolMessage (''Tool '' @ tc_name tc @ '' not found'')
                  (case tc_id tc of None \<Rightarrow> '''' | Some x \<Rightarrow> x))"
    by (simp add: execute_tool_call_eq result_text_def call_id_def)
  then show ?thesis by simp
qed

theorem unknown_tool_not_found_witness:
  "''translate'' \<notin> set (map tool_name tools)
   \<and> execute_tool_calls example_env 0
        [\<lparr>tc_name = ''translate'', tc_args = [], tc_id = Some ''call_1''\<rparr>,
         \<lparr>tc_name = ''generate_uuid'', tc_args = [], tc_id = Some ''call_2''\<rparr>] []
       = Inr [ToolMessage ''Tool translate not found'' ''call_1'',
              ToolMessage ''00000000-0000-4000-8000-000000000000'' ''call_2'']"
  using unknown_tool_not_found [of "\<lparr>tc_name = ''translate'', tc_args = [], tc_id = Some ''call_1''\<rparr>"
      example_env 0 "[\<lparr>tc_name = ''generate_uuid'', tc_args = [], tc_id = Some ''call_2''\<rparr>]" "[]"]
  by (simp add: tool_names execute_tool_call_eq run_uuid result_text_def call_id_def str_tool_value_def)

text \<open>
  Claim C9. A tool call without an \<^verbatim>\<open>id\<close> key does not make the loop fail: the tool is
  looked up and invoked as for any call, an exception can only come from the tool, and
  the tool message carries the empty string as its id, exactly as if the id had been
  the empty string.
\<close>

theorem missing_id_empty_correlation:
  "(tc_id tc = None \<longrightarrow>
      execute_tool_call e i tc =
        (case find_and_invoke tools e i (tc_name tc) (tc_args tc) of
           Inl x \<Rightarrow> Inl x
         | Inr found \<Rightarrow> Inr (ToolMessage (result_text (tc_name tc) found) '''')))
   \<and> execute_tool_call e i (tc\<lparr>tc_id := None\<rparr>) = execute_tool_call e i (tc\<lparr>tc_id := Some ''''\<rparr>)
   \<and> execute_tool_calls e i (tc\<lparr>tc_id := None\<rparr> # rest) messages =
       execute_tool_calls e i (tc\<lparr>tc_id := Some ''''\<rparr> # rest) messages"
  by (simp add: execute_tool_call_eq call_id_def split: sum.splits)

theorem missing_id_empty_correlation_witness:
  "tc_id \<lparr>tc_name = ''generate_uuid'', tc_args = [], tc_id = None\<rparr> = None
   \<and> execute_tool_call example_env 0 \<lparr>tc_name = ''generate_uuid'', tc_args = [], tc_id = None\<rparr>
       = Inr (ToolMessage ''00000000-0000-4000-8000-000000000000'' '''')"
  using missing_id_empty_correlation
    [of "\<lparr>tc_name = ''generate_uuid'', tc_args = [], tc_id = None\<rparr>" example_env 0]
  by (simp add: run_uuid result_text_def str_tool_value_def split: sum.splits)

lemma execute_tool_calls_append:
  "execute_tool_calls e i (tcs @ tcs') messages =
     (case execute_tool_calls e i tcs messages of
        Inl x \<Rightarrow> Inl x
      | Inr ms \<Rightarrow> execute_tool_calls e (i + length tcs) tcs' ms)"
  by (induction tcs arbitrary: i messages) (auto split: sum.splits)

lemma execute_tool_calls_all:
  assumes "length founds = length tcs"
    and "\<forall>j < length tcs.
           find_and_invoke tools e (i + j) (tc_name (tcs ! j)) (tc_args (tcs ! j)) = Inr (founds ! j)"
  shows "execute_tool_calls e i tcs messages =
           Inr (messages @ map (\<lambda>(tc, found). ToolMessage (result_text (tc_name tc) found) (call_id tc))
                             (zip tcs founds))"
  using assms
proof (induction tcs arbitrary: i messages founds)
  case Nil
  then show ?case by simp
next
  case (Cons tc tcs)
  then obtain f fs where founds: "founds = f # fs" by (cases founds) auto
  from Cons.prems(2) have hd: "find_and_invoke tools e i (tc_name tc) (tc_args tc) = Inr f"
    using founds by (auto dest: spec [of _ 0])
  have tl: "\<forall>j < length tcs.
      find_and_invoke tools e (Suc i + j) (tc_name (tcs ! j)) (tc_args (tcs ! j)) = Inr (fs ! j)"
  proof (intro allI impI)
    fix j assume "j < length tcs"
    then have "Suc j < length (tc # tcs)" by simp
    with Cons.prems(2) have "find_and_invoke tools e (i + Suc j) (tc_name ((tc # tcs) ! Suc j))
        (tc_args ((tc # tcs) ! Suc j)) = Inr (founds ! Suc j)" by blast
    then show "find_and_invoke tools e (Suc i + j) (tc_name (tcs ! j)) (tc_args (tcs ! j)) = Inr (fs ! j)"
      using founds by simp
  qed
  have len: "length fs = length tcs" using Cons.prems(1) founds by simp
  show ?case
    using Cons.IH [OF len tl] hd founds by (simp add: execute_tool_call_eq)
qed

lemma execute_tool_calls_raises:
  assumes "find_and_invoke tools e i (tc_name tc) (tc_args tc) = Inl x"
  shows "execute_tool_calls e i (tc # rest) messages = Inl x"
  using assms by (simp add: execute_tool_call_eq)

lemma execute_tool_calls_first_raise:
  assumes "k < length tcs"
    and "\<forall>j < k. \<exists>found.
           find_and_invoke tools e (i + j) (tc_name (tcs ! j)) (tc_args (tcs ! j)) = Inr found"
    and "find_and_invoke tools e (i + k) (tc_name (tcs ! k)) (tc_args (tcs ! k)) = Inl x"
  shows "execute_tool_calls e i tcs messages = Inl x"
  using assms
proof (induction tcs arbitrary: i k messages)
  case Nil
  then show ?case by simp
next
  case (Cons tc tcs)
  show ?case
  proof (cases k)
    case 0
    with Cons.prems(3) have "find_and_invoke tools e i (tc_name tc) (tc_args tc) = Inl x" by simp
    then show ?thesis by (rule execute_tool_calls_raises)
  next
    case (Suc k')
    with Cons.prems(2) obtain found
      where f: "find_and_invoke tools e i (tc_name tc) (tc_args tc) = Inr found"
      by (auto dest: spec [of _ 0])
    from Suc Cons.prems(1) have k': "k' < length tcs" by simp
    have ret: "\<forall>j < k'. \<exists>found.
        find_and_invoke tools e (Suc i + j) (tc_name (tcs ! j)) (tc_args (tcs ! j)) = Inr found"
    proof (intro allI impI)
      fix j assume "j < k'"
      then have "Suc j < k" using Suc by simp
      with Cons.prems(2) obtain found where
        "find_and_invoke tools e (i + Suc j) (tc_name ((tc # tcs) ! Suc j))
           (tc_args ((tc # tcs) ! Suc j)) = Inr found" by blast
      then show "\<exists>found. find_and_invoke tools e (Suc i + j) (tc_name (tcs ! j)) (tc_args (tcs ! j))
          = Inr found" by simp
    qed
    from Cons.prems(3) Suc
    have r: "find_and_invoke tools e (Suc i + k') (tc_name (tcs ! k')) (tc_args (tcs ! k')) = Inl x"
      by simp
    from Cons.IH [OF k' ret r] f show ?thesis by (simp add: execute_tool_call_eq)
  qed
qed

text \<open>
  Claim C8, as amended. When every requested tool invocation returns (a tool that is
  not found counts as returning), the loop runs the requests one after the other in the
  order given, the \<open>j\<close>-th with index \<open>i + j\<close>, and appends exactly one tool message per
  request, in that order: the \<open>j\<close>-th message carries the text of the \<open>j\<close>-th result and
  the id of the \<open>j\<close>-th request. When the \<open>k\<close>-th request is the first whose tool
  raises, the loop ends with that exception whatever the later requests are: they are
  not run and no message is kept. The counterexample shows this case, which the claim
  as stated misses, for \<^verbatim>\<open>generate_random_number\<close> on an empty range.
\<close>

theorem tool_results_in_order:
  assumes "length founds = length tcs" and "length ids = length tcs"
    and "\<forall>j < length tcs.
           find_and_invoke tools e (i + j) (tc_name (tcs ! j)) (tc_args (tcs ! j)) = Inr (founds ! j)"
    and "\<forall>j < length tcs. tc_id (tcs ! j) = Some (ids ! j)"
  shows "(\<exists>new. execute_tool_calls e i tcs messages = Inr (messages @ new)
           \<and> length new = length tcs
           \<and> (\<forall>j < length tcs.
                 new ! j = ToolMessage (result_text (tc_name (tcs ! j)) (founds ! j)) (ids ! j)))
         \<and> (k < length reqs
             \<and> (\<forall>j < k. \<exists>found.
                   find_and_invoke tools e (i + j) (tc_name (reqs ! j)) (tc_args (reqs ! j)) = Inr found)
             \<and> find_and_invoke tools e (i + k) (tc_name (reqs ! k)) (tc_args (reqs ! k)) = Inl x
             \<longrightarrow> execute_tool_calls e i reqs messages = Inl x)"
proof (intro conjI impI)
  let ?new = "map (\<lambda>(tc, found). ToolMessage (result_text (tc_name tc) found) (call_id tc))
                (zip tcs founds)"
  have "execute_tool_calls e i tcs messages = Inr (messages @ ?new)"
    using assms(1,3) by (rule execute_tool_calls_all)
  moreover have "length ?new = length tcs" using assms(1) by simp
  moreover have "\<forall>j < length tcs.
      ?new ! j = ToolMessage (result_text (tc_name (tcs ! j)) (founds ! j)) (ids ! j)"
    using assms(1,4) by (simp add: call_id_def)
  ultimately show "\<exists>new. execute_tool_calls e i tcs messages = Inr (messages @ new)
           \<and> length new = length tcs
           \<and> (\<forall>j < length tcs.
                 new ! j = ToolMessage (result_text (tc_name (tcs ! j)) (founds ! j)) (ids ! j))"
    by blast
next
  assume r: "k < length reqs
             \<and> (\<forall>j < k. \<exists>found.
                   find_and_invoke tools e (i + j) (tc_name (reqs ! j)) (tc_args (reqs ! j)) = Inr found)
             \<and> find_and_invoke tools e (i + k) (tc_name (reqs ! k)) (tc_args (reqs ! k)) = Inl x"
  show "execute_tool_calls e i reqs messages = Inl x"
    by (rule execute_tool_calls_first_raise [OF r [THEN conjunct1]
          r [THEN conjunct2, THEN conjunct1] r [THEN conjunct2, THEN conjunct2]])
qed

theorem tool_results_abort_counterexample:
  "execute_tool_calls example_env 0
     [\<lparr>tc_name = ''generate_random_number'',
       tc_args = [(''min_val'', PyInt 5), (''max_val'', PyInt 1)], tc_id = Some ''call_1''\<rparr>,
      \<lparr>tc_name = ''generate_uuid'', tc_args = [], tc_id = Some ''call_2''\<rparr>] []
   = Inl (Exn ValueError ''empty range for randrange() (5, 2, -3)'')"
  by (simp add: execute_tool_call_eq run_random generate_random_number_def str_int_def
      digits10.simps digit_char_def)

theorem tool_results_in_order_witness:
  "execute_tool_calls example_env 0
     [\<lparr>tc_name = ''generate_uuid'', tc_args = [], tc_id = Some ''call_1''\<rparr>,
      \<lparr>tc_name = ''generate_random_number'',
       tc_args = [(''min_val'', PyInt 1), (''max_val'', PyInt 6)], tc_id = Some ''call_2''\<rparr>] []
   = Inr [ToolMessage ''00000000-0000-4000-8000-000000000000'' ''call_1'', ToolMessage ''1'' ''call_2'']
   \<and> execute_tool_calls example_env 0
     [\<lparr>tc_name = ''generate_uuid'', tc_args = [], tc_id = Some ''call_1''\<rparr>,
      \<lparr>tc_name = ''generate_random_number'',
       tc_args = [(''min_val'', PyInt 9), (''max_val'', PyInt 3)], tc_id = Some ''call_2''\<rparr>,
      \<lparr>tc_name = ''generate_uuid'', tc_args = [], tc_id = Some ''call_3''\<rparr>] []
   = Inl (Exn ValueError ''empty range for randrange() (9, 4, -5)'')"
proof -
  let ?tcs = "[\<lparr>tc_name = ''generate_uuid'', tc_args = [], tc_id = Some ''call_1''\<rparr>,
      \<lparr>tc_name = ''generate_random_number'',
       tc_args = [(''min_val'', PyInt 1), (''max_val'', PyInt 6)], tc_id = Some ''call_2''\<rparr>]"
  let ?founds = "[Some (TStr ''00000000-0000-4000-8000-000000000000''), Some (TInt 1)]"
  let ?ids = "[''call_1'', ''call_2'']"
  let ?reqs = "[\<lparr>tc_name = ''generate_uuid'', tc_args = [], tc_id = Some ''call_1''\<rparr>,
      \<lparr>tc_name = ''generate_random_number'',
       tc_args = [(''min_val'', PyInt 9), (''max_val'', PyInt 3)], tc_id = Some ''call_2''\<rparr>,
      \<lparr>tc_name = ''generate_uuid'', tc_args = [], tc_id = Some ''call_3''\<rparr>]"
  have h1: "length ?founds = length ?tcs" by simp
  have h2: "length ?ids = length ?tcs" by simp
  have h3: "\<forall>j < length ?tcs.
      find_and_invoke tools example_env (0 + j) (tc_name (?tcs ! j)) (tc_args (?tcs ! j)) = Inr (?founds ! j)"
    by (simp add: less_Suc_eq run_uuid run_random generate_random_number_def)
  have h4: "\<forall>j < length ?tcs. tc_id (?tcs ! j) = Some (?ids ! j)"
    by (simp add: less_Suc_eq)
  note t = tool_results_in_order [OF h1 h2 h3 h4, where messages = "[]" and k = 1 and reqs = ?reqs
      and x = "Exn ValueError ''empty range for randrange() (9, 4, -5)''"]
  from t [THEN conjunct1]
  obtain new where new: "execute_tool_calls example_env 0 ?tcs [] = Inr ([] @ new)"
    "length new = length ?tcs"
    "\<forall>j < length ?tcs. new ! j = ToolMessage (result_text (tc_name (?tcs ! j)) (?founds ! j)) (?ids ! j)"
    by blast
  from new(2) obtain a b where ab: "new = [a, b]"
    by (cases new; cases "tl new") auto
  from new(3) ab have "a = ToolMessage ''00000000-0000-4000-8000-000000000000'' ''call_1''"
    "b = ToolMessage ''1'' ''call_2''"
    by (auto simp: less_Suc_eq result_text_def str_tool_value_def str_int_def digits10.simps digit_char_def
        dest: spec [of _ 0] spec [of _ 1])
  with new(1) ab have 1: "execute_tool_calls example_env 0 ?tcs []
      = Inr [ToolMessage ''00000000-0000-4000-8000-000000000000'' ''call_1'', ToolMessage ''1'' ''call_2'']"
    by simp
  have r: "1 < length ?reqs
      \<and> (\<forall>j < 1. \<exists>found. find_and_invoke tools example_env (0 + j) (tc_name (?reqs ! j))
             (tc_args (?reqs ! j)) = Inr found)
      \<and> find_and_invoke tools example_env (0 + 1) (tc_name (?reqs ! 1)) (tc_args (?reqs ! 1))
          = Inl (Exn ValueError ''empty range for randrange() (9, 4, -5)'')"
    by (simp add: run_uuid run_random generate_random_number_def str_int_def digits10.simps
        digit_char_def)
  have 2: "execute_tool_calls example_env 0 ?reqs []
      = Inl (Exn ValueError ''empty range for randrange() (9, 4, -5)'')"
    by (rule t [THEN conjunct2, THEN mp, OF r])
  show ?thesis by (rule conjI [OF 1 2])
qed

section \<open>Properties of \<^verbatim>\<open>invoke_agent\<close>\<close>

lemma invoke_agent_calls_le: "length (snd (invoke_agent e model payload)) \<le> 2"
  by (simp add: invoke_agent_def invoke_agent_try_def Let_def split: sum.splits prod.splits)

text \<open>
  Claim C2, as amended. The model is invoked at most twice in any invocation. When the
  first reply requests tool calls and every requested tool invocation returns, the
  model is invoked exactly once more, with the system and human messages, the first
  reply and one tool message per request, in that order; if that second call returns,
  its content is the result, whatever tool calls the second reply requests: there is no
  second round of tools. When the \<open>k\<close>-th request is the first whose tool raises, the
  model is not invoked again and the result is the error text of that exception. The
  counterexample shows this case, which the claim as stated misses.
\<close>

theorem one_round_of_tools:
  "length (snd (invoke_agent e model payload)) \<le> 2
   \<and> (payload_get payload ''prompt'' (PyStr ''Hello!'') = Inr user_input
        \<and> human_message user_input = Inr human
        \<and> model 0 [SystemMessage system_prompt, human] = Inr response
        \<and> tool_calls response \<noteq> []
        \<and> length founds = length (tool_calls response)
        \<and> (\<forall>j < length (tool_calls response).
              find_and_invoke tools e j (tc_name (tool_calls response ! j))
                (tc_args (tool_calls response ! j)) = Inr (founds ! j))
        \<and> history =
            [SystemMessage system_prompt, human, AIMessage response]
              @ map (\<lambda>(tc, found). ToolMessage (result_text (tc_name tc) found) (call_id tc))
                  (zip (tool_calls response) founds)
      \<longrightarrow> snd (invoke_agent e model payload) = [[SystemMessage system_prompt, human], history]
          \<and> (model 1 history = Inr final_response
                \<longrightarrow> fst (invoke_agent e model payload) = PyDict [(''result'', content final_response)]))
   \<and> (payload_get payload ''prompt'' (PyStr ''Hello!'') = Inr user_input
        \<and> human_message user_input = Inr human
        \<and> model 0 [SystemMessage system_prompt, human] = Inr response
        \<and> k < length (tool_calls response)
        \<and> (\<forall>j < k. \<exists>found.
              find_and_invoke tools e j (tc_name (tool_calls response ! j))
                (tc_args (tool_calls response ! j)) = Inr found)
        \<and> find_and_invoke tools e k (tc_name (tool_calls response ! k))
              (tc_args (tool_calls response ! k)) = Inl x
      \<longrightarrow> invoke_agent e model payload =
            (PyDict [(''result'', PyStr (''Error: '' @ exn_msg x))],
             [[SystemMessage system_prompt, human]]))"
proof (intro conjI impI)
  show "length (snd (invoke_agent e model payload)) \<le> 2" by (rule invoke_agent_calls_le)
next
  assume a: "payload_get payload ''prompt'' (PyStr ''Hello!'') = Inr user_input
        \<and> human_message user_input = Inr human
        \<and> model 0 [SystemMessage system_prompt, human] = Inr response
        \<and> tool_calls response \<noteq> []
        \<and> length founds = length (tool_calls response)
        \<and> (\<forall>j < length (tool_calls response).
              find_and_invoke tools e j (tc_name (tool_calls response ! j))
                (tc_args (tool_calls response ! j)) = Inr (founds ! j))
        \<and> history =
            [SystemMessage system_prompt, human, AIMessage response]
              @ map (\<lambda>(tc, found). ToolMessage (result_text (tc_name tc) found) (call_id tc))
                  (zip (tool_calls response) founds)"
  then have all: "\<forall>j < length (tool_calls response).
              find_and_invoke tools e (0 + j) (tc_name (tool_calls response ! j))
                (tc_args (tool_calls response ! j)) = Inr (founds ! j)" by simp
  from a have len: "length founds = length (tool_calls response)" by simp
  have loop: "execute_tool_calls e 0 (tool_calls response)
      ([SystemMessage system_prompt, human] @ [AIMessage response]) = Inr history"
    using execute_tool_calls_all [OF len all, of "[SystemMessage system_prompt, human] @ [AIMessage response]"] a
    by simp
  show calls: "snd (invoke_agent e model payload) = [[SystemMessage system_prompt, human], history]"
    using a loop by (simp add: invoke_agent_def invoke_agent_try_def Let_def split: sum.splits)
  assume "model 1 history = Inr final_response"
  then show "fst (invoke_agent e model payload) = PyDict [(''result'', content final_response)]"
    using a loop by (simp add: invoke_agent_def invoke_agent_try_def Let_def)
next
  assume b: "payload_get payload ''prompt'' (PyStr ''Hello!'') = Inr user_input
        \<and> human_message user_input = Inr human
        \<and> model 0 [SystemMessage system_prompt, human] = Inr response
        \<and> k < length (tool_calls response)
        \<and> (\<forall>j < k. \<exists>found.
              find_and_invoke tools e j (tc_name (tool_calls response ! j))
                (tc_args (tool_calls response ! j)) = Inr found)
        \<and> find_and_invoke tools e k (tc_name (tool_calls response ! k))
              (tc_args (tool_calls response ! k)) = Inl x"
  then have k: "k < length (tool_calls response)"
    and ret: "\<forall>j < k. \<exists>found.
              find_and_invoke tools e (0 + j) (tc_name (tool_calls response ! j))
                (tc_args (tool_calls response ! j)) = Inr found"
    and r: "find_and_invoke tools e (0 + k) (tc_name (tool_calls response ! k))
              (tc_args (tool_calls response ! k)) = Inl x"
    by simp_all
  have loop: "execute_tool_calls e 0 (tool_calls response)
      ([SystemMessage system_prompt, human] @ [AIMessage response]) = Inl x"
    by (rule execute_tool_calls_first_raise [OF k ret r])
  from k have "tool_calls response \<noteq> []" by auto
  then show "invoke_agent e model payload =
            (PyDict [(''result'', PyStr (''Error: '' @ exn_msg x))],
             [[SystemMessage system_prompt, human]])"
    using b loop by (simp add: invoke_agent_def invoke_agent_try_def Let_def)
qed

theorem one_round_of_tools_witness:
  "invoke_agent example_env
     (scripted_llm
        \<lparr>content = PyStr '''', tool_calls = [\<lparr>tc_name = ''generate_uuid'', tc_args = [], tc_id = Some ''call_1''\<rparr>]\<rparr>
        \<lparr>content = PyStr ''Here is a UUID.'',
         tool_calls = [\<lparr>tc_name = ''generate_uuid'', tc_args = [], tc_id = Some ''call_2''\<rparr>]\<rparr>)
     (PyDict [(''prompt'', PyStr ''Generate a UUID for me'')])
   = (PyDict [(''result'', PyStr ''Here is a UUID.'')],
      [[SystemMessage system_prompt, HumanMessage (PyStr ''Generate a UUID for me'')],
       [SystemMessage system_prompt, HumanMessage (PyStr ''Generate a UUID for me''),
        AIMessage \<lparr>content = PyStr '''',
                   tool_calls = [\<lparr>tc_name = ''generate_uuid'', tc_args = [], tc_id = Some ''call_1''\<rparr>]\<rparr>,
        ToolMessage ''00000000-0000-4000-8000-000000000000'' ''call_1'']])
   \<and> invoke_agent example_env
     (scripted_llm
        \<lparr>content = PyStr '''',
         tool_calls = [\<lparr>tc_name = ''generate_uuid'', tc_args = [], tc_id = Some ''call_1''\<rparr>,
                       \<lparr>tc_name = ''generate_random_number'',
                        tc_args = [(''min_val'', PyInt 9), (''max_val'', PyInt 3)],
                        tc_id = Some ''call_2''\<rparr>]\<rparr>
        \<lparr>content = PyStr ''Done.'', tool_calls = []\<rparr>)
     (PyDict [(''prompt'', PyStr ''Two things'')])
   = (PyDict [(''result'', PyStr ''Error: empty range for randrange() (9, 4, -5)'')],
      [[SystemMessage system_prompt, HumanMessage (PyStr ''Two things'')]])"
proof -
  have 1: "invoke_agent example_env
     (scripted_llm
        \<lparr>content = PyStr '''', tool_calls = [\<lparr>tc_name = ''generate_uuid'', tc_args = [], tc_id = Some ''call_1''\<rparr>]\<rparr>
        \<lparr>content = PyStr ''Here is a UUID.'',
         tool_calls = [\<lparr>tc_name = ''generate_uuid'', tc_args = [], tc_id = Some ''call_2''\<rparr>]\<rparr>)
     (PyDict [(''prompt'', PyStr ''Generate a UUID for me'')])
   = (PyDict [(''result'', PyStr ''Here is a UUID.'')],
      [[SystemMessage system_prompt, HumanMessage (PyStr ''Generate a UUID for me'')],
       [SystemMessage system_prompt, HumanMessage (PyStr ''Generate a UUID for me''),
        AIMessage \<lparr>content = PyStr '''',
                   tool_calls = [\<lparr>tc_name = ''generate_uuid'', tc_args = [], tc_id = Some ''call_1''\<rparr>]\<rparr>,
        ToolMessage ''00000000-0000-4000-8000-000000000000'' ''call_1'']])"
    using one_round_of_tools [where e = example_env
      and model = "scripted_llm
        \<lparr>content = PyStr '''', tool_calls = [\<lparr>tc_name = ''generate_uuid'', tc_args = [], tc_id = Some ''call_1''\<rparr>]\<rparr>
        \<lparr>content = PyStr ''Here is a UUID.'',
         tool_calls = [\<lparr>tc_name = ''generate_uuid'', tc_args = [], tc_id = Some ''call_2''\<rparr>]\<rparr>"
      and payload = "PyDict [(''prompt'', PyStr ''Generate a UUID for me'')]"
      and user_input = "PyStr ''Generate a UUID for me''"
      and human = "HumanMessage (PyStr ''Generate a UUID for me'')"
      and response = "\<lparr>content = PyStr '''', tool_calls = [\<lparr>tc_name = ''generate_uuid'', tc_args = [], tc_id = Some ''call_1''\<rparr>]\<rparr>"
      and founds = "[Some (TStr ''00000000-0000-4000-8000-000000000000'')]"
      and history = "[SystemMessage system_prompt, HumanMessage (PyStr ''Generate a UUID for me''),
        AIMessage \<lparr>content = PyStr '''',
                   tool_calls = [\<lparr>tc_name = ''generate_uuid'', tc_args = [], tc_id = Some ''call_1''\<rparr>]\<rparr>,
        ToolMessage ''00000000-0000-4000-8000-000000000000'' ''call_1'']"
      and final_response = "\<lparr>content = PyStr ''Here is a UUID.'',
         tool_calls = [\<lparr>tc_name = ''generate_uuid'', tc_args = [], tc_id = Some ''call_2''\<rparr>]\<rparr>",
      THEN conjunct2, THEN conjunct1]
    by (simp add: payload_get_def human_message_def scripted_llm_def run_uuid result_text_def
        call_id_def str_tool_value_def prod_eq_iff)
  have 2: "invoke_agent example_env
     (scripted_llm
        \<lparr>content = PyStr '''',
         tool_calls = [\<lparr>tc_name = ''generate_uuid'', tc_args = [], tc_id = Some ''call_1''\<rparr>,
                       \<lparr>tc_name = ''generate_random_number'',
                        tc_args = [(''min_val'', PyInt 9), (''max_val'', PyInt 3)],
                        tc_id = Some ''call_2''\<rparr>]\<rparr>
        \<lparr>content = PyStr ''Done.'', tool_calls = []\<rparr>)
     (PyDict [(''prompt'', PyStr ''Two things'')])
   = (PyDict [(''result'', PyStr ''Error: empty range for randrange() (9, 4, -5)'')],
      [[SystemMessage system_prompt, HumanMessage (PyStr ''Two things'')]])"
    using one_round_of_tools [where e = example_env
      and model = "scripted_llm
        \<lparr>content = PyStr '''',
         tool_calls = [\<lparr>tc_name = ''generate_uuid'', tc_args = [], tc_id = Some ''call_1''\<rparr>,
                       \<lparr>tc_name = ''generate_random_number'',
                        tc_args = [(''min_val'', PyInt 9), (''max_val'', PyInt 3)],
                        tc_id = Some ''call_2''\<rparr>]\<rparr>
        \<lparr>content = PyStr ''Done.'', tool_calls = []\<rparr>"
      and payload = "PyDict [(''prompt'', PyStr ''Two things'')]"
      and user_input = "PyStr ''Two things''" and human = "HumanMessage (PyStr ''Two things'')"
      and response = "\<lparr>content = PyStr '''',
         tool_calls = [\<lparr>tc_name = ''generate_uuid'', tc_args = [], tc_id = Some ''call_1''\<rparr>,
                       \<lparr>tc_name = ''generate_random_number'',
                        tc_args = [(''min_val'', PyInt 9), (''max_val'', PyInt 3)],
                        tc_id = Some ''call_2''\<rparr>]\<rparr>"
      and k = 1 and x = "Exn ValueError ''empty range for randrange() (9, 4, -5)''",
      THEN conjunct2, THEN conjunct2]
    by (simp add: payload_get_def human_message_def scripted_llm_def run_uuid run_random
        generate_random_number_def str_int_def digits10.simps digit_char_def)
  show ?thesis by (rule conjI [OF 1 2])
qed

theorem one_round_of_tools_counterexample:
  "invoke_agent example_env
     (scripted_llm
        \<lparr>content = PyStr '''',
         tool_calls = [\<lparr>tc_name = ''generate_random_number'',
                        tc_args = [(''min_val'', PyInt 5), (''max_val'', PyInt 1)],
                        tc_id = Some ''call_1''\<rparr>]\<rparr>
        \<lparr>content = PyStr ''Here is a number.'', tool_calls = []\<rparr>)
     (PyDict [(''prompt'', PyStr ''Roll'')])
   = (PyDict [(''result'', PyStr ''Error: empty range for randrange() (5, 2, -3)'')],
      [[SystemMessage system_prompt, HumanMessage (PyStr ''Roll'')]])"
  by (simp add: invoke_agent_def invoke_agent_try_def payload_get_def human_message_def
      scripted_llm_def execute_tool_call_eq run_random generate_random_number_def str_int_def
      digits10.simps digit_char_def)

lemma payload_get_not_dict:
  "\<forall>kvs. payload \<noteq> PyDict kvs \<Longrightarrow> \<exists>x. payload_get payload k dflt = Inl x"
  by (cases payload) (simp_all add: payload_get_def)

text \<open>
  Claim C1. \<^verbatim>\<open>invoke_agent\<close> has no exception among its results: it always returns a
  dictionary with the one key \<^verbatim>\<open>result\<close>. Whenever the body of its \<^verbatim>\<open>try\<close> block raises
  an exception, the value under that key is the text \<^verbatim>\<open>Error: \<close> followed by the
  exception's message; this is shown for an arbitrary exception of the body and, one by
  one, for a payload that is not a dictionary, for a failing model call and for a
  failing tool call. When the body returns, the value is what it returned.
\<close>

theorem invoke_agent_never_raises:
  "(\<exists>r. fst (invoke_agent e model payload) = PyDict [(''result'', r)])
   \<and> (fst (invoke_agent_try e model payload) = Inl x
        \<longrightarrow> fst (invoke_agent e model payload) = PyDict [(''result'', PyStr (''Error: '' @ exn_msg x))])
   \<and> (fst (invoke_agent_try e model payload) = Inr c
        \<longrightarrow> fst (invoke_agent e model payload) = PyDict [(''result'', c)])
   \<and> ((\<forall>kvs. payload \<noteq> PyDict kvs)
        \<longrightarrow> (\<exists>x. fst (invoke_agent e model payload) = PyDict [(''result'', PyStr (''Error: '' @ exn_msg x))]))
   \<and> (payload_get payload ''prompt'' (PyStr ''Hello!'') = Inr user_input
        \<and> human_message user_input = Inr human
        \<and> model 0 [SystemMessage system_prompt, human] = Inl x
        \<longrightarrow> fst (invoke_agent e model payload) = PyDict [(''result'', PyStr (''Error: '' @ exn_msg x))])
   \<and> (payload_get payload ''prompt'' (PyStr ''Hello!'') = Inr user_input
        \<and> human_message user_input = Inr human
        \<and> model 0 [SystemMessage system_prompt, human] = Inr response
        \<and> tool_calls response \<noteq> []
        \<and> execute_tool_calls e 0 (tool_calls response)
             [SystemMessage system_prompt, human, AIMessage response] = Inl x
        \<longrightarrow> fst (invoke_agent e model payload) = PyDict [(''result'', PyStr (''Error: '' @ exn_msg x))])"
proof (intro conjI impI)
  show "\<exists>r. fst (invoke_agent e model payload) = PyDict [(''result'', r)]"
    by (cases "invoke_agent_try e model payload"; cases "fst (invoke_agent_try e model payload)")
      (simp_all add: invoke_agent_def)
next
  assume "fst (invoke_agent_try e model payload) = Inl x"
  then show "fst (invoke_agent e model payload) = PyDict [(''result'', PyStr (''Error: '' @ exn_msg x))]"
    by (cases "invoke_agent_try e model payload") (simp add: invoke_agent_def)
next
  assume "fst (invoke_agent_try e model payload) = Inr c"
  then show "fst (invoke_agent e model payload) = PyDict [(''result'', c)]"
    by (cases "invoke_agent_try e model payload") (simp add: invoke_agent_def)
next
  assume "\<forall>kvs. payload \<noteq> PyDict kvs"
  then obtain y where "payload_get payload ''prompt'' (PyStr ''Hello!'') = Inl y"
    using payload_get_not_dict by blast
  then have "fst (invoke_agent e model payload) = PyDict [(''result'', PyStr (''Error: '' @ exn_msg y))]"
    by (simp add: invoke_agent_def invoke_agent_try_def)
  then show "\<exists>x. fst (invoke_agent e model payload) = PyDict [(''result'', PyStr (''Error: '' @ exn_msg x))]"
    by blast
next
  assume "payload_get payload ''prompt'' (PyStr ''Hello!'') = Inr user_input
        \<and> human_message user_input = Inr human
        \<and> model 0 [SystemMessage system_prompt, human] = Inl x"
  then show "fst (invoke_agent e model payload) = PyDict [(''result'', PyStr (''Error: '' @ exn_msg x))]"
    by (simp add: invoke_agent_def invoke_agent_try_def)
next
  assume "payload_get payload ''prompt'' (PyStr ''Hello!'') = Inr user_input
        \<and> human_message user_input = Inr human
        \<and> model 0 [SystemMessage system_prompt, human] = Inr response
        \<and> tool_calls response \<noteq> []
        \<and> execute_tool_calls e 0 (tool_calls response)
             [SystemMessage system_prompt, human, AIMessage response] = Inl x"
  then show "fst (invoke_agent e model payload) = PyDict [(''result'', PyStr (''Error: '' @ exn_msg x))]"
    by (simp add: invoke_agent_def invoke_agent_try_def)
qed

theorem invoke_agent_never_raises_witness:
  "(\<forall>kvs. PyList [] \<noteq> PyDict kvs)
   \<and> fst (invoke_agent example_env failing_llm (PyList []))
       = PyDict [(''result'', PyStr (''Error: '' @ [CHR 0x27] @ ''list'' @ [CHR 0x27]
            @ '' object has no attribute '' @ [CHR 0x27] @ ''get'' @ [CHR 0x27]))]
   \<and> payload_get (PyDict []) ''prompt'' (PyStr ''Hello!'') = Inr (PyStr ''Hello!'')
   \<and> human_message (PyStr ''Hello!'') = Inr (HumanMessage (PyStr ''Hello!''))
   \<and> failing_llm 0 [SystemMessage system_prompt, HumanMessage (PyStr ''Hello!'')]
       = Inl (Exn RuntimeError ''model endpoint unreachable'')
   \<and> fst (invoke_agent example_env failing_llm (PyDict []))
       = PyDict [(''result'', PyStr ''Error: model endpoint unreachable'')]"
  using invoke_agent_never_raises [of example_env failing_llm "PyDict []"
      "Exn RuntimeError ''model endpoint unreachable''" undefined "PyStr ''Hello!''"
      "HumanMessage (PyStr ''Hello!'')"]
  by (simp add: payload_get_def human_message_def failing_llm_def invoke_agent_def
      invoke_agent_try_def type_name_def)

end
